theory Spec2Isabelle
  imports Complex_Main
begin

section \<open>Data model (schema.prisma)\<close>

text \<open>
  The two enumerated types and the single model \<open>User\<close> of the Prisma schema.
  \<open>DateTime\<close> values are milliseconds since the epoch (what \<open>Date.getTime()\<close>
  returns); \<open>Int\<close> columns are JavaScript numbers holding integers and are modelled as
  unbounded \<open>int\<close> (the column width of the database is not modelled). The field \<open>id\<close>
  is called \<open>id_u\<close> here, since \<open>id\<close> is the identity function of HOL.
\<close>

datatype PlanType = BASIC | CORE | ADVANCED | PRO

datatype SubscriptionStatus =
  ACTIVE | CANCELED | PAST_DUE | INCOMPLETE | INCOMPLETE_EXPIRED | TRIALING | UNPAID

type_synonym date = int

record user =
  id_u :: string
  email :: string
  oauthId :: string
  username :: "string option"
  createdAt :: date
  updatedAt :: date
  subscriptioStartDate :: "date option"
  subscriptionEndDate :: "date option"
  subscriptionStatus :: SubscriptionStatus
  planType :: PlanType
  messagesUsed :: int
  documentsUsed :: int
  messageLeft :: int
  documentLeft :: int

text \<open>The stored table: the rows in storage order.\<close>

type_synonym db = "user list"

section \<open>Plan limits\<close>

record limits =
  messages :: int
  documents :: int

text \<open>\<open>PLAN_LIMITS\<close> of the first router (with the \<open>-1\<close> sentinel for PRO).\<close>

fun PLAN_LIMITS :: "PlanType \<Rightarrow> limits" where
  "PLAN_LIMITS BASIC = \<lparr>messages = 20, documents = 0\<rparr>"
| "PLAN_LIMITS CORE = \<lparr>messages = 100, documents = 10\<rparr>"
| "PLAN_LIMITS ADVANCED = \<lparr>messages = 500, documents = 50\<rparr>"
| "PLAN_LIMITS PRO = \<lparr>messages = - 1, documents = - 1\<rparr>"

text \<open>\<open>PLAN_LIMITS\<close> of the second router (keyed by oauthId), with finite ceilings.\<close>

fun PLAN_LIMITS_2 :: "PlanType \<Rightarrow> limits" where
  "PLAN_LIMITS_2 BASIC = \<lparr>messages = 20, documents = 0\<rparr>"
| "PLAN_LIMITS_2 CORE = \<lparr>messages = 100, documents = 10\<rparr>"
| "PLAN_LIMITS_2 ADVANCED = \<lparr>messages = 700, documents = 50\<rparr>"
| "PLAN_LIMITS_2 PRO = \<lparr>messages = 1500, documents = 400\<rparr>"

section \<open>The persistence collaborator (Prisma client)\<close>

text \<open>
  The \<open>data\<close> argument of \<open>prisma.user.update\<close>: every column may be absent
  (\<open>None\<close>); a nullable column that is present may be set to \<open>null\<close> (\<open>Some None\<close>).
\<close>

record user_data =
  d_email :: "string option"
  d_oauthId :: "string option"
  d_username :: "string option option"
  d_subscriptioStartDate :: "date option option"
  d_subscriptionEndDate :: "date option option"
  d_subscriptionStatus :: "SubscriptionStatus option"
  d_planType :: "PlanType option"
  d_messagesUsed :: "int option"
  d_documentsUsed :: "int option"
  d_messageLeft :: "int option"
  d_documentLeft :: "int option"

definition no_data :: user_data where
  "no_data = \<lparr>d_email = None, d_oauthId = None, d_username = None,
     d_subscriptioStartDate = None, d_subscriptionEndDate = None,
     d_subscriptionStatus = None, d_planType = None,
     d_messagesUsed = None, d_documentsUsed = None,
     d_messageLeft = None, d_documentLeft = None\<rparr>"

datatype prisma_error = P2002 | P2025 | PrismaValidation

fun or_else :: "'a option \<Rightarrow> 'a \<Rightarrow> 'a" where
  "or_else None d = d"
| "or_else (Some v) d = v"

text \<open>
  Writing the present columns of \<open>data\<close> into a row. The column \<open>updatedAt\<close> is
  declared \<open>@updatedAt\<close> in the schema: the client stamps it with the time of every
  update.
\<close>

definition apply_data :: "user_data \<Rightarrow> date \<Rightarrow> user \<Rightarrow> user" where
  "apply_data d now u = u\<lparr>
     email := or_else (d_email d) (email u),
     oauthId := or_else (d_oauthId d) (oauthId u),
     username := or_else (d_username d) (username u),
     updatedAt := now,
     subscriptioStartDate := or_else (d_subscriptioStartDate d) (subscriptioStartDate u),
     subscriptionEndDate := or_else (d_subscriptionEndDate d) (subscriptionEndDate u),
     subscriptionStatus := or_else (d_subscriptionStatus d) (subscriptionStatus u),
     planType := or_else (d_planType d) (planType u),
     messagesUsed := or_else (d_messagesUsed d) (messagesUsed u),
     documentsUsed := or_else (d_documentsUsed d) (documentsUsed u),
     messageLeft := or_else (d_messageLeft d) (messageLeft u),
     documentLeft := or_else (d_documentLeft d) (documentLeft u)\<rparr>"

text \<open>\<open>findUnique\<close> by one of the unique columns: the first (the only) matching row.\<close>

definition findUnique_id :: "string \<Rightarrow> db \<Rightarrow> user option" where
  "findUnique_id i rows = find (\<lambda>u. id_u u = i) rows"

definition findUnique_oauthId :: "string \<Rightarrow> db \<Rightarrow> user option" where
  "findUnique_oauthId i rows = find (\<lambda>u. oauthId u = i) rows"

text \<open>
  The \<open>@unique\<close> columns: writing an email or an oauthId that another row holds is
  refused with the error code P2002.
\<close>

definition unique_clash :: "user_data \<Rightarrow> user \<Rightarrow> db \<Rightarrow> bool" where
  "unique_clash d u rows =
     (\<exists>v \<in> set rows. id_u v \<noteq> id_u u \<and>
        (d_email d = Some (email v) \<or> d_oauthId d = Some (oauthId v)))"

text \<open>
  \<open>prisma.user.update({ where, data })\<close>: P2025 when no row matches, P2002 on a
  unique-constraint violation, otherwise the updated row and the new table.
\<close>

definition prisma_update ::
  "user option \<Rightarrow> user_data \<Rightarrow> date \<Rightarrow> db \<Rightarrow> prisma_error + (user \<times> db)" where
  "prisma_update found d now rows =
     (case found of
        None \<Rightarrow> Inl P2025
      | Some u \<Rightarrow>
          if unique_clash d u rows then Inl P2002
          else (let u' = apply_data d now u
                in Inr (u', map (\<lambda>v. if id_u v = id_u u then u' else v) rows)))"

definition update_by_id :: "string \<Rightarrow> user_data \<Rightarrow> date \<Rightarrow> db \<Rightarrow> prisma_error + (user \<times> db)" where
  "update_by_id i d now rows = prisma_update (findUnique_id i rows) d now rows"

definition update_by_oauthId :: "string \<Rightarrow> user_data \<Rightarrow> date \<Rightarrow> db \<Rightarrow> prisma_error + (user \<times> db)" where
  "update_by_oauthId i d now rows = prisma_update (findUnique_oauthId i rows) d now rows"

section \<open>Responses\<close>

datatype quota_view = Unlimited | Count int

record stats =
  st_userId :: string
  st_planType :: PlanType
  st_subscriptionStatus :: SubscriptionStatus
  st_messages_used :: int
  st_messages_remaining :: quota_view
  st_messages_total :: quota_view
  st_documents_used :: int
  st_documents_remaining :: quota_view
  st_documents_total :: quota_view
  st_startDate :: "date option"
  st_endDate :: "date option"
  st_daysRemaining :: "int option"

datatype payload = NoData | UserData user | StatsData stats

record response =
  status :: nat
  message :: string
  payload_of :: payload

text \<open>\<open>sendError\<close> and \<open>sendSuccess\<close> (\<open>res.json\<close> answers with status 200).\<close>

definition sendError :: "nat \<Rightarrow> string \<Rightarrow> response" where
  "sendError st msg = \<lparr>status = st, message = msg, payload_of = NoData\<rparr>"

definition sendSuccess :: "payload \<Rightarrow> string \<Rightarrow> response" where
  "sendSuccess p msg = \<lparr>status = 200, message = msg, payload_of = p\<rparr>"

section \<open>PATCH /api/v1/users/:id/usage\<close>

text \<open>
  The request body \<open>{ type, amount = 1 }\<close>: \<open>type\<close> may be missing (a missing and an
  empty \<open>type\<close> are both falsy and are refused alike), \<open>amount\<close> is an integer and
  defaults to 1.
\<close>

record usage_body =
  type_b :: "string option"
  amount_b :: "int option"

definition usage_data :: "user \<Rightarrow> string \<Rightarrow> int \<Rightarrow> user_data" where
  "usage_data u ty amount =
     (if ty = ''message'' then
        no_data\<lparr>d_messagesUsed := Some (messagesUsed u + amount),
                d_messageLeft := (if messageLeft u \<noteq> - 1 then Some (messageLeft u - amount) else None)\<rparr>
      else
        no_data\<lparr>d_documentsUsed := Some (documentsUsed u + amount),
                d_documentLeft := (if documentLeft u \<noteq> - 1 then Some (documentLeft u - amount) else None)\<rparr>)"

definition consume_usage :: "string \<Rightarrow> usage_body \<Rightarrow> date \<Rightarrow> db \<Rightarrow> response \<times> db" where
  "consume_usage i body now rows =
     (let ty = or_else (type_b body) []; amount = or_else (amount_b body) 1 in
      if i = [] then (sendError 400 ''User ID is required'', rows)
      else if ty \<noteq> ''message'' \<and> ty \<noteq> ''document''
      then (sendError 400 ''Type must be either \"message\" or \"document\"'', rows)
      else if amount < 1 then (sendError 400 ''Amount must be positive'', rows)
      else (case findUnique_id i rows of
          None \<Rightarrow> (sendError 404 ''User not found'', rows)
        | Some u \<Rightarrow>
            (let currentLeft = (if ty = ''message'' then messageLeft u else documentLeft u) in
             if currentLeft \<noteq> - 1 \<and> currentLeft < amount
             then (sendError 403 (''Insufficient '' @ ty @ '' quota remaining''), rows)
             else (case update_by_id i (usage_data u ty amount) now rows of
                 Inl e \<Rightarrow> (sendError 500 ''Internal server error'', rows)
               | Inr (u', rows') \<Rightarrow>
                   (sendSuccess (UserData u') (ty @ '' usage updated successfully''), rows')))))"


section \<open>Validation helpers\<close>

text \<open>
  \<open>isValidEmail\<close> tests the pattern \<open>/^[^\s@]+@[^\s@]+\.[^\s@]+$/\<close>: a non-empty local
  part, one \<open>@\<close>, and a domain that has a dot with at least one character on each side;
  no whitespace anywhere. A \<open>char\<close> is one code unit below 256 (Latin-1), where \<open>\s\<close>
  matches space, tab, line feed, vertical tab, form feed, carriage return and the
  no-break space U+00A0; code points above 255 are not represented.
\<close>

definition is_space :: "char \<Rightarrow> bool" where
  "is_space c = (c \<in> {CHR '' '', CHR 0x09, CHR 0x0A, CHR 0x0B, CHR 0x0C, CHR 0x0D, CHR 0xA0})"

definition isValidEmail :: "string \<Rightarrow> bool" where
  "isValidEmail s =
     (let local_part = takeWhile (\<lambda>c. c \<noteq> CHR ''@'') s;
          rest = dropWhile (\<lambda>c. c \<noteq> CHR ''@'') s
      in local_part \<noteq> [] \<and> \<not> list_ex is_space local_part \<and>
         (case rest of
            [] \<Rightarrow> False
          | _ # domain_part \<Rightarrow> \<not> list_ex (\<lambda>c. c = CHR ''@'' \<or> is_space c) domain_part \<and>
                       CHR ''.'' \<in> set (butlast (tl domain_part))))"

definition plan_of_string :: "string \<Rightarrow> PlanType option" where
  "plan_of_string s =
     (if s = ''BASIC'' then Some BASIC
      else if s = ''CORE'' then Some CORE
      else if s = ''ADVANCED'' then Some ADVANCED
      else if s = ''PRO'' then Some PRO
      else None)"

fun string_of_plan :: "PlanType \<Rightarrow> string" where
  "string_of_plan BASIC = ''BASIC''"
| "string_of_plan CORE = ''CORE''"
| "string_of_plan ADVANCED = ''ADVANCED''"
| "string_of_plan PRO = ''PRO''"

definition isValidPlanType :: "string \<Rightarrow> bool" where
  "isValidPlanType s = (plan_of_string s \<noteq> None)"

definition status_of_string :: "string \<Rightarrow> SubscriptionStatus option" where
  "status_of_string s =
     (if s = ''ACTIVE'' then Some ACTIVE
      else if s = ''CANCELED'' then Some CANCELED
      else if s = ''PAST_DUE'' then Some PAST_DUE
      else if s = ''INCOMPLETE'' then Some INCOMPLETE
      else if s = ''INCOMPLETE_EXPIRED'' then Some INCOMPLETE_EXPIRED
      else if s = ''TRIALING'' then Some TRIALING
      else if s = ''UNPAID'' then Some UNPAID
      else None)"

definition isValidSubscriptionStatus :: "string \<Rightarrow> bool" where
  "isValidSubscriptionStatus s = (status_of_string s \<noteq> None)"

text \<open>JavaScript truthiness of an optional string: present and not empty.\<close>

fun truthy :: "string option \<Rightarrow> bool" where
  "truthy None = False"
| "truthy (Some s) = (s \<noteq> [])"

section \<open>The update endpoints\<close>

text \<open>
  The JSON body of the two PATCH update endpoints, as received: the plan and the status
  are still strings; the increment flags are \<open>Some True\<close> exactly when the body holds
  the boolean \<open>true\<close> (the handler tests \<open>=== true\<close>); dates are already instants.
  The bodies considered carry the keys of this record only (in particular none of \<open>id\<close>,
  \<open>createdAt\<close>, \<open>updatedAt\<close>), with values of the JSON type the column expects.
\<close>

record update_body =
  b_email :: "string option"
  b_oauthId :: "string option"
  b_username :: "string option option"
  b_subscriptioStartDate :: "date option option"
  b_subscriptionEndDate :: "date option option"
  b_subscriptionStatus :: "string option"
  b_planType :: "string option"
  b_messagesUsed :: "int option"
  b_documentsUsed :: "int option"
  b_messageLeft :: "int option"
  b_documentLeft :: "int option"
  b_incrementMessage :: "bool option"
  b_incrementDocument :: "bool option"

definition empty_body :: update_body where
  "empty_body = \<lparr>b_email = None, b_oauthId = None, b_username = None,
     b_subscriptioStartDate = None, b_subscriptionEndDate = None,
     b_subscriptionStatus = None, b_planType = None,
     b_messagesUsed = None, b_documentsUsed = None,
     b_messageLeft = None, b_documentLeft = None,
     b_incrementMessage = None, b_incrementDocument = None\<rparr>"

text \<open>
  What the Prisma client makes of an update object: an unknown key (the increment
  flags are no columns) or a string that is no member of the enum is a validation
  error, raised before anything is written.
\<close>

definition to_data :: "update_body \<Rightarrow> user_data option" where
  "to_data b =
     (if b_incrementMessage b \<noteq> None \<or> b_incrementDocument b \<noteq> None then None
      else if b_planType b \<noteq> None \<and> plan_of_string (or_else (b_planType b) []) = None then None
      else if b_subscriptionStatus b \<noteq> None \<and>
              status_of_string (or_else (b_subscriptionStatus b) []) = None then None
      else Some \<lparr>d_email = b_email b, d_oauthId = b_oauthId b, d_username = b_username b,
        d_subscriptioStartDate = b_subscriptioStartDate b,
        d_subscriptionEndDate = b_subscriptionEndDate b,
        d_subscriptionStatus = (case b_subscriptionStatus b of None \<Rightarrow> None | Some s \<Rightarrow> status_of_string s),
        d_planType = (case b_planType b of None \<Rightarrow> None | Some s \<Rightarrow> plan_of_string s),
        d_messagesUsed = b_messagesUsed b, d_documentsUsed = b_documentsUsed b,
        d_messageLeft = b_messageLeft b, d_documentLeft = b_documentLeft b\<rparr>)"

definition update_raw ::
  "user option \<Rightarrow> update_body \<Rightarrow> date \<Rightarrow> db \<Rightarrow> prisma_error + (user \<times> db)" where
  "update_raw found b now rows =
     (case to_data b of
        None \<Rightarrow> Inl PrismaValidation
      | Some d \<Rightarrow> prisma_update found d now rows)"

subsection \<open>PATCH /api/v1/users/:id (first router)\<close>

definition plan_reset :: "user \<Rightarrow> update_body \<Rightarrow> update_body" where
  "plan_reset existingUser updateData =
     (if truthy (b_planType updateData) \<and>
         b_planType updateData \<noteq> Some (string_of_plan (planType existingUser))
      then (let limits = PLAN_LIMITS (the (plan_of_string (the (b_planType updateData))))
            in updateData\<lparr>b_messageLeft := Some (messages limits),
                 b_documentLeft := Some (documents limits),
                 b_messagesUsed := Some 0, b_documentsUsed := Some 0\<rparr>)
      else updateData)"

definition update_user :: "string \<Rightarrow> update_body \<Rightarrow> date \<Rightarrow> db \<Rightarrow> response \<times> db" where
  "update_user i updateData now rows =
     (if i = [] then (sendError 400 ''User ID is required'', rows)
      else if truthy (b_email updateData) \<and> \<not> isValidEmail (the (b_email updateData))
      then (sendError 400 ''Invalid email format'', rows)
      else if truthy (b_planType updateData) \<and> \<not> isValidPlanType (the (b_planType updateData))
      then (sendError 400 ''Invalid plan type'', rows)
      else if truthy (b_subscriptionStatus updateData) \<and>
              \<not> isValidSubscriptionStatus (the (b_subscriptionStatus updateData))
      then (sendError 400 ''Invalid subscription status'', rows)
      else (case findUnique_id i rows of
          None \<Rightarrow> (sendError 404 ''User not found'', rows)
        | Some existingUser \<Rightarrow>
            (case update_raw (findUnique_id i rows) (plan_reset existingUser updateData) now rows of
               Inl e \<Rightarrow>
                 (if e = P2002 then (sendError 409 ''Email or oauthId already exists'', rows)
                  else (sendError 500 ''Internal server error'', rows))
             | Inr (updatedUser, rows') \<Rightarrow>
                 (sendSuccess (UserData updatedUser) ''User updated successfully'', rows'))))"

subsection \<open>PATCH /api/v1/users/:oauthId (second router)\<close>

text \<open>
  The plan-change block. \<open>now\<close> is the handler's \<open>new Date()\<close>; \<open>plus_month\<close> stands for
  \<open>d.setMonth(d.getMonth() + 1)\<close> of the JavaScript runtime, which is not part of the
  repository and is taken as a parameter.
\<close>

definition plan_change :: "(date \<Rightarrow> date) \<Rightarrow> date \<Rightarrow> string \<Rightarrow> update_body \<Rightarrow> update_body" where
  "plan_change plus_month now planType_s updateData =
     (let newPlan = the (plan_of_string planType_s);
          limits = PLAN_LIMITS_2 newPlan;
          updateData1 = updateData\<lparr>b_messageLeft := Some (messages limits),
             b_documentLeft := Some (documents limits),
             b_messagesUsed := Some 0, b_documentsUsed := Some 0,
             b_planType := Some planType_s\<rparr>
      in if newPlan = CORE \<or> newPlan = ADVANCED \<or> newPlan = PRO
         then updateData1\<lparr>b_subscriptioStartDate := Some (Some now),
                b_subscriptionEndDate := Some (Some (plus_month now)),
                b_subscriptionStatus := Some ''ACTIVE''\<rparr>
         else if newPlan = BASIC
         then updateData1\<lparr>b_subscriptionStatus := Some ''CANCELED'',
                b_subscriptionEndDate := Some None,
                b_subscriptioStartDate := Some None\<rparr>
         else updateData1)"

text \<open>The usage block; \<open>body\<close> is the request body, \<open>updateData\<close> the object being built.\<close>

definition usage_update :: "user \<Rightarrow> update_body \<Rightarrow> update_body \<Rightarrow> update_body" where
  "usage_update existingUser body updateData =
     (let incrementMessage = (b_incrementMessage body = Some True);
          incrementDocument = (b_incrementDocument body = Some True);
          ud1 = (if incrementMessage
                 then updateData\<lparr>b_messagesUsed := Some (messagesUsed existingUser + 1),
                        b_messageLeft := (if messageLeft existingUser \<noteq> - 1
                                          then Some (max 0 (messageLeft existingUser - 1))
                                          else b_messageLeft updateData)\<rparr>
                 else updateData);
          ud2 = (if incrementDocument
                 then ud1\<lparr>b_documentsUsed := Some (documentsUsed existingUser + 1),
                        b_documentLeft := (if documentLeft existingUser \<noteq> - 1
                                           then Some (max 0 (documentLeft existingUser - 1))
                                           else b_documentLeft ud1)\<rparr>
                 else ud1);
          ud3 = (case b_messagesUsed body of
                   None \<Rightarrow> ud2
                 | Some messagesUsed_b \<Rightarrow>
                     if incrementMessage then ud2
                     else (let newMessagesUsed = max 0 messagesUsed_b
                           in ud2\<lparr>b_messagesUsed := Some newMessagesUsed,
                                b_messageLeft := (if messageLeft existingUser \<noteq> - 1
                                   then Some (max 0 (messageLeft existingUser -
                                                     (newMessagesUsed - messagesUsed existingUser)))
                                   else b_messageLeft ud2)\<rparr>));
          ud4 = (case b_documentsUsed body of
                   None \<Rightarrow> ud3
                 | Some documentsUsed_b \<Rightarrow>
                     if incrementDocument then ud3
                     else (let newDocumentsUsed = max 0 documentsUsed_b
                           in ud3\<lparr>b_documentsUsed := Some newDocumentsUsed,
                                b_documentLeft := (if documentLeft existingUser \<noteq> - 1
                                   then Some (max 0 (documentLeft existingUser -
                                                     (newDocumentsUsed - documentsUsed existingUser)))
                                   else b_documentLeft ud3)\<rparr>))
      in ud4)"

text \<open>
  The rest of the destructured body: the five names taken out are no longer keys of
  \<open>updateData\<close>.
\<close>

definition rest_of :: "update_body \<Rightarrow> update_body" where
  "rest_of body = body\<lparr>b_incrementMessage := None, b_incrementDocument := None,
     b_messagesUsed := None, b_documentsUsed := None, b_planType := None\<rparr>"

definition build_update ::
  "(date \<Rightarrow> date) \<Rightarrow> date \<Rightarrow> user \<Rightarrow> update_body \<Rightarrow> update_body" where
  "build_update plus_month now existingUser body =
     (let planType_b = b_planType body;
          updateData = rest_of body;
          updateData1 =
            (if truthy planType_b \<and> planType_b \<noteq> Some (string_of_plan (planType existingUser))
             then plan_change plus_month now (the planType_b) updateData
             else updateData);
          updateData2 =
            (if \<not> truthy planType_b \<and>
                (b_incrementMessage body = Some True \<or> b_incrementDocument body = Some True \<or>
                 b_messagesUsed body \<noteq> None \<or> b_documentsUsed body \<noteq> None)
             then usage_update existingUser body updateData1
             else updateData1)
      in updateData2)"

definition update_user_by_oauthId ::
  "(date \<Rightarrow> date) \<Rightarrow> string \<Rightarrow> update_body \<Rightarrow> date \<Rightarrow> db \<Rightarrow> response \<times> db" where
  "update_user_by_oauthId plus_month oid body now rows =
     (if oid = [] then (sendError 400 ''OAuth ID is required'', rows)
      else if truthy (b_email body) \<and> \<not> isValidEmail (the (b_email body))
      then (sendError 400 ''Invalid email format'', rows)
      else if truthy (b_planType body) \<and> \<not> isValidPlanType (the (b_planType body))
      then (sendError 400 ''Invalid plan type'', rows)
      else if truthy (b_subscriptionStatus body) \<and>
              \<not> isValidSubscriptionStatus (the (b_subscriptionStatus body))
      then (sendError 400 ''Invalid subscription status'', rows)
      else (case findUnique_oauthId oid rows of
          None \<Rightarrow> (sendError 404 ''User not found'', rows)
        | Some existingUser \<Rightarrow>
            (let updateData = build_update plus_month now existingUser body in
             if updateData = empty_body then (sendError 400 ''No valid updates provided'', rows)
             else (case update_raw (findUnique_oauthId oid rows) updateData now rows of
                 Inl e \<Rightarrow>
                   (if e = P2002 then (sendError 409 ''Email or oauthId already exists'', rows)
                    else if e = P2025 then (sendError 404 ''User not found'', rows)
                    else (sendError 500 ''Internal server error'', rows))
               | Inr (updatedUser, rows') \<Rightarrow>
                   (sendSuccess (UserData updatedUser) ''User updated successfully'', rows')))))"

section \<open>GET /api/v1/users/:id/stats\<close>

text \<open>
  \<open>Math.ceil((end.getTime() - new Date().getTime()) / (1000 * 60 * 60 * 24))\<close>: the
  quotient of two integers, taken exactly, then rounded up.
\<close>

definition daysRemaining :: "date \<Rightarrow> date \<Rightarrow> int" where
  "daysRemaining endDate now = \<lceil>(of_int (endDate - now) :: rat) / of_int (1000 * 60 * 60 * 24)\<rceil>"

definition user_stats :: "user \<Rightarrow> date \<Rightarrow> stats" where
  "user_stats u now = \<lparr>
     st_userId = id_u u,
     st_planType = planType u,
     st_subscriptionStatus = subscriptionStatus u,
     st_messages_used = messagesUsed u,
     st_messages_remaining = (if messageLeft u = - 1 then Unlimited else Count (messageLeft u)),
     st_messages_total =
       (if messageLeft u = - 1 then Unlimited else Count (messagesUsed u + messageLeft u)),
     st_documents_used = documentsUsed u,
     st_documents_remaining = (if documentLeft u = - 1 then Unlimited else Count (documentLeft u)),
     st_documents_total =
       (if documentLeft u = - 1 then Unlimited else Count (documentsUsed u + documentLeft u)),
     st_startDate = subscriptioStartDate u,
     st_endDate = subscriptionEndDate u,
     st_daysRemaining =
       (case subscriptionEndDate u of
          None \<Rightarrow> None
        | Some endDate \<Rightarrow> Some (daysRemaining endDate now))\<rparr>"

definition get_stats :: "string \<Rightarrow> date \<Rightarrow> db \<Rightarrow> response" where
  "get_stats i now rows =
     (if i = [] then sendError 400 ''User ID is required''
      else (case findUnique_id i rows of
          None \<Rightarrow> sendError 404 ''User not found''
        | Some u \<Rightarrow> sendSuccess (StatsData (user_stats u now)) ''Operation completed successfully''))"

section \<open>Scheduled jobs\<close>

text \<open>
  A \<open>for\<close> loop over the rows a query returned, updating each by its id with data
  computed from the returned row. An error of the client leaves the loop (and the job,
  whose \<open>catch\<close> only logs it); what was written before stays written.
\<close>

fun update_each :: "(user \<Rightarrow> user_data) \<Rightarrow> date \<Rightarrow> user list \<Rightarrow> db \<Rightarrow> db \<times> prisma_error option" where
  "update_each f now [] rows = (rows, None)"
| "update_each f now (u # us) rows =
     (case update_by_id (id_u u) (f u) now rows of
        Inl e \<Rightarrow> (rows, Some e)
      | Inr (u', rows') \<Rightarrow> update_each f now us rows')"

definition is_expired :: "date \<Rightarrow> user \<Rightarrow> bool" where
  "is_expired now u =
     ((case subscriptionEndDate u of None \<Rightarrow> False | Some e \<Rightarrow> e < now) \<and>
      subscriptionStatus u \<noteq> CANCELED)"

definition expired_data :: "(PlanType \<Rightarrow> limits) \<Rightarrow> user_data" where
  "expired_data plan_limits = no_data\<lparr>
     d_planType := Some BASIC,
     d_subscriptionStatus := Some UNPAID,
     d_subscriptionEndDate := Some None,
     d_subscriptioStartDate := Some None,
     d_messageLeft := Some (messages (plan_limits BASIC)),
     d_documentLeft := Some (documents (plan_limits BASIC)),
     d_messagesUsed := Some 0,
     d_documentsUsed := Some 0\<rparr>"

text \<open>The data \<open>resetUserLimits\<close> writes.\<close>

definition reset_data :: "(PlanType \<Rightarrow> limits) \<Rightarrow> PlanType \<Rightarrow> user_data" where
  "reset_data plan_limits p = (let limits = plan_limits p in no_data\<lparr>
     d_messageLeft := Some (messages limits),
     d_documentLeft := Some (documents limits),
     d_messagesUsed := Some 0,
     d_documentsUsed := Some 0\<rparr>)"

text \<open>
  The monthly job (\<open>0 0 1 * *\<close>); both routers register the same code, each over its own
  table of plan limits, which is the parameter here.
\<close>

definition monthly_job :: "(PlanType \<Rightarrow> limits) \<Rightarrow> date \<Rightarrow> db \<Rightarrow> db" where
  "monthly_job plan_limits now rows =
     (let expiredUsers = filter (is_expired now) rows in
      case update_each (\<lambda>u. expired_data plan_limits) now expiredUsers rows of
        (rows1, Some e) \<Rightarrow> rows1
      | (rows1, None) \<Rightarrow>
          (let activeUsers = filter (\<lambda>u. subscriptionStatus u = ACTIVE) rows1
           in fst (update_each (\<lambda>u. reset_data plan_limits (planType u)) now activeUsers rows1)))"

text \<open>The daily job (\<open>0 0 * * *\<close>).\<close>

definition expiring_soon :: "date \<Rightarrow> user \<Rightarrow> bool" where
  "expiring_soon now u =
     (let threeDaysFromNow = now + 3 * 24 * 60 * 60 * 1000 in
      (case subscriptionEndDate u of
         None \<Rightarrow> False
       | Some e \<Rightarrow> now \<le> e \<and> e \<le> threeDaysFromNow) \<and>
      subscriptionStatus u = ACTIVE)"

definition past_due_data :: user_data where
  "past_due_data = no_data\<lparr>d_subscriptionStatus := Some PAST_DUE\<rparr>"

definition daily_job :: "date \<Rightarrow> db \<Rightarrow> db" where
  "daily_job now rows =
     (let soonToExpire = filter (expiring_soon now) rows
      in fst (update_each (\<lambda>u. past_due_data) now soonToExpire rows))"

section \<open>Authentication middleware\<close>

text \<open>\<open>s.split(c)\<close> for a one-character separator.\<close>

fun split_on :: "char \<Rightarrow> string \<Rightarrow> string list" where
  "split_on c [] = [[]]"
| "split_on c (x # xs) =
     (if x = c then [] # split_on c xs
      else (case split_on c xs of
              [] \<Rightarrow> [[x]]
            | w # ws \<Rightarrow> (x # w) # ws))"

fun nth_opt :: "'a list \<Rightarrow> nat \<Rightarrow> 'a option" where
  "nth_opt [] n = None"
| "nth_opt (x # xs) 0 = Some x"
| "nth_opt (x # xs) (Suc n) = nth_opt xs n"

datatype middleware_result = CallNext | SendResponse response

text \<open>
  \<open>clerkAuthenticate\<close>. The token check \<open>clerkClient.verifyToken\<close> belongs to the
  identity provider's SDK and is a parameter: \<open>None\<close> when it throws, the decoded
  claims otherwise.
\<close>

definition clerkAuthenticate :: "(string \<Rightarrow> 'c option) \<Rightarrow> string option \<Rightarrow> middleware_result" where
  "clerkAuthenticate verifyToken authorization =
     (let sessionToken = (case authorization of
                            None \<Rightarrow> None
                          | Some a \<Rightarrow> nth_opt (split_on CHR '' '' a) 1)
      in case verifyToken (if truthy sessionToken then the sessionToken else []) of
           Some response \<Rightarrow> CallNext
         | None \<Rightarrow> CallNext)"

text \<open>A route registered as \<open>router.METHOD(path, clerkAuthenticate, handler)\<close>.\<close>

definition authenticated_route ::
  "(string \<Rightarrow> 'c option) \<Rightarrow> ('q \<Rightarrow> 'r) \<Rightarrow> (response \<Rightarrow> 'r) \<Rightarrow> string option \<Rightarrow> 'q \<Rightarrow> 'r" where
  "authenticated_route verifyToken handler reply authorization req =
     (case clerkAuthenticate verifyToken authorization of
        CallNext \<Rightarrow> handler req
      | SendResponse r \<Rightarrow> reply r)"

section \<open>Identity-provider webhook\<close>

record email_address =
  ea_id :: string
  ea_email_address :: string

text \<open>\<open>event.data\<close> of a user event, as far as the handlers read it.\<close>

record clerk_user =
  cu_id :: string
  cu_email_addresses :: "email_address list"
  cu_primary_email_address_id :: "string option"
  cu_username :: "string option"

record webhook_event =
  ev_type :: string
  ev_data :: clerk_user

record webhook_request =
  svix_id :: "string option"
  svix_timestamp :: "string option"
  svix_signature :: "string option"
  body_of :: string

record environment =
  USER_WEBHOOK_SECRET :: "string option"
  WEBHOOK_SECRET :: "string option"

datatype webhook_result = Responded nat string | Forwarded

text \<open>
  \<open>prisma.user.create\<close> with the three columns the webhook supplies and the defaults
  of the schema for the others. The generated \<open>uuid()\<close> is a parameter. A row with
  the same id, email or oauthId makes the unique constraint fail (P2002).
\<close>

definition prisma_create ::
  "string \<Rightarrow> string \<Rightarrow> string \<Rightarrow> string option \<Rightarrow> date \<Rightarrow> db \<Rightarrow> prisma_error + (user \<times> db)" where
  "prisma_create new_id oid mail name now rows =
     (if \<exists>v \<in> set rows. id_u v = new_id \<or> email v = mail \<or> oauthId v = oid then Inl P2002
      else (let u = \<lparr>id_u = new_id, email = mail, oauthId = oid, username = name,
                      createdAt = now, updatedAt = now,
                      subscriptioStartDate = None, subscriptionEndDate = None,
                      subscriptionStatus = UNPAID, planType = BASIC,
                      messagesUsed = 0, documentsUsed = 0,
                      messageLeft = 20, documentLeft = 0\<rparr>
            in Inr (u, rows @ [u])))"

definition prisma_delete_oauthId :: "string \<Rightarrow> db \<Rightarrow> prisma_error + db" where
  "prisma_delete_oauthId oid rows =
     (case findUnique_oauthId oid rows of
        None \<Rightarrow> Inl P2025
      | Some u \<Rightarrow> Inr (filter (\<lambda>v. id_u v \<noteq> id_u u) rows))"

definition primary_email :: "clerk_user \<Rightarrow> email_address option" where
  "primary_email userData =
     find (\<lambda>e. Some (ea_id e) = cu_primary_email_address_id userData) (cu_email_addresses userData)"

text \<open>\<open>userData.username || primaryEmail.email_address.split('@')[0]\<close>\<close>

definition username_for :: "clerk_user \<Rightarrow> email_address \<Rightarrow> string" where
  "username_for userData primaryEmail =
     (if truthy (cu_username userData) then the (cu_username userData)
      else hd (split_on CHR ''@'' (ea_email_address primaryEmail)))"

text \<open>The three event handlers: \<open>Inl\<close> is the error they rethrow.\<close>

definition handleUserCreated :: "string \<Rightarrow> clerk_user \<Rightarrow> date \<Rightarrow> db \<Rightarrow> prisma_error + db" where
  "handleUserCreated new_id userData now rows =
     (case primary_email userData of
        None \<Rightarrow> Inr rows
      | Some primaryEmail \<Rightarrow>
          (case prisma_create new_id (cu_id userData) (ea_email_address primaryEmail)
                  (Some (username_for userData primaryEmail)) now rows of
             Inl e \<Rightarrow> Inl e
           | Inr (u, rows') \<Rightarrow> Inr rows'))"

definition handleUserUpdated :: "clerk_user \<Rightarrow> date \<Rightarrow> db \<Rightarrow> prisma_error + db" where
  "handleUserUpdated userData now rows =
     (case primary_email userData of
        None \<Rightarrow> Inr rows
      | Some primaryEmail \<Rightarrow>
          (case update_by_oauthId (cu_id userData)
                  (no_data\<lparr>d_email := Some (ea_email_address primaryEmail),
                           d_username := Some (Some (username_for userData primaryEmail))\<rparr>)
                  now rows of
             Inl e \<Rightarrow> Inl e
           | Inr (u, rows') \<Rightarrow> Inr rows'))"

definition handleUserDeleted :: "clerk_user \<Rightarrow> db \<Rightarrow> prisma_error + db" where
  "handleUserDeleted userData rows = prisma_delete_oauthId (cu_id userData) rows"

text \<open>
  \<open>handleUserWebhook\<close>. The signature check \<open>new Webhook(secret).verify(body, headers)\<close>
  of the svix library is a parameter: \<open>None\<close> when it throws, the verified event
  otherwise.
\<close>

definition webhook_secret :: "environment \<Rightarrow> string option" where
  "webhook_secret env =
     (if truthy (USER_WEBHOOK_SECRET env) then USER_WEBHOOK_SECRET env
      else if truthy (WEBHOOK_SECRET env) then WEBHOOK_SECRET env
      else None)"

definition dispatch_user_event ::
  "string \<Rightarrow> webhook_event \<Rightarrow> date \<Rightarrow> db \<Rightarrow> prisma_error + db" where
  "dispatch_user_event new_id event now rows =
     (if ev_type event = ''user.created'' then handleUserCreated new_id (ev_data event) now rows
      else if ev_type event = ''user.updated'' then handleUserUpdated (ev_data event) now rows
      else if ev_type event = ''user.deleted'' then handleUserDeleted (ev_data event) rows
      else Inr rows)"

definition handleUserWebhook ::
  "(string \<Rightarrow> string \<Rightarrow> string \<times> string \<times> string \<Rightarrow> webhook_event option) \<Rightarrow>
   environment \<Rightarrow> string \<Rightarrow> webhook_request \<Rightarrow> date \<Rightarrow> db \<Rightarrow> webhook_result \<times> db" where
  "handleUserWebhook verify env new_id req now rows =
     (case webhook_secret env of
        None \<Rightarrow> (Responded 500 ''Server configuration error'', rows)
      | Some secret \<Rightarrow>
          if \<not> truthy (svix_id req) \<or> \<not> truthy (svix_timestamp req) \<or> \<not> truthy (svix_signature req)
          then (Responded 400 ''Missing verification headers'', rows)
          else (case verify secret (body_of req)
                       (the (svix_id req), the (svix_timestamp req), the (svix_signature req)) of
              None \<Rightarrow> (Responded 400 ''Invalid webhook signature'', rows)
            | Some event \<Rightarrow>
                if take 5 (ev_type event) = ''user.''
                then (case dispatch_user_event new_id event now rows of
                        Inl e \<Rightarrow> (Responded 500 ''Error processing webhook'', rows)
                      | Inr rows' \<Rightarrow> (Responded 200 ''User webhook processed successfully'', rows'))
                else (Forwarded, rows)))"

section \<open>Example rows\<close>

text \<open>A BASIC user as created by default, and a paying user whose subscription ends at 5000.\<close>

definition alice :: user where
  "alice = \<lparr>id_u = ''u1'', email = ''a@b.com'', oauthId = ''x1'', username = Some ''a'',
     createdAt = 0, updatedAt = 0, subscriptioStartDate = None, subscriptionEndDate = None,
     subscriptionStatus = UNPAID, planType = BASIC,
     messagesUsed = 0, documentsUsed = 0, messageLeft = 20, documentLeft = 0\<rparr>"

definition bob :: user where
  "bob = \<lparr>id_u = ''u2'', email = ''bob@b.com'', oauthId = ''x2'', username = None,
     createdAt = 0, updatedAt = 0, subscriptioStartDate = Some 1000, subscriptionEndDate = Some 5000,
     subscriptionStatus = ACTIVE, planType = CORE,
     messagesUsed = 40, documentsUsed = 3, messageLeft = 60, documentLeft = 7\<rparr>"

section \<open>Auxiliary notions\<close>

text \<open>Update data that writes neither of the two \<open>@unique\<close> columns.\<close>

definition no_unique_columns :: "user_data \<Rightarrow> bool" where
  "no_unique_columns d = (d_email d = None \<and> d_oauthId d = None)"

text \<open>A signature check with a fixed outcome, and a server without a webhook secret.\<close>

definition fixed_verify ::
  "webhook_event option \<Rightarrow> string \<Rightarrow> string \<Rightarrow> string \<times> string \<times> string \<Rightarrow> webhook_event option" where
  "fixed_verify outcome secret body hdrs = outcome"

definition no_secret_env :: environment where
  "no_secret_env = \<lparr>USER_WEBHOOK_SECRET = None, WEBHOOK_SECRET = None\<rparr>"

definition secret_env :: environment where
  "secret_env = \<lparr>USER_WEBHOOK_SECRET = None, WEBHOOK_SECRET = Some ''whsec''\<rparr>"

definition unsigned_request :: webhook_request where
  "unsigned_request = \<lparr>svix_id = None, svix_timestamp = None, svix_signature = None,
     body_of = ''{}''\<rparr>"

definition signed_request :: webhook_request where
  "signed_request = \<lparr>svix_id = Some ''msg_1'', svix_timestamp = Some ''1700000000'',
     svix_signature = Some ''v1,sig'', body_of = ''{}''\<rparr>"

definition carol_created :: webhook_event where
  "carol_created = \<lparr>ev_type = ''user.created'',
     ev_data = \<lparr>cu_id = ''x3'',
       cu_email_addresses = [\<lparr>ea_id = ''e1'', ea_email_address = ''carol@c.org''\<rparr>],
       cu_primary_email_address_id = Some ''e1'', cu_username = None\<rparr>\<rparr>"

text \<open>
  What \<open>d.setMonth(d.getMonth() + 1)\<close> gives for an instant whose month has 31 days and
  is followed by a month of at least as many days as the day of the month (as at the
  instant 9000 of the examples, in the first seconds of 1970): 31 days later. Used in
  examples only.
\<close>

definition plus_month_january :: "date \<Rightarrow> date" where
  "plus_month_january d = d + 31 * 24 * 60 * 60 * 1000"

text \<open>A PRO user of the first router: both left-counters hold the sentinel \<open>-1\<close>.\<close>

definition dana :: user where
  "dana = \<lparr>id_u = ''u4'', email = ''dana@d.net'', oauthId = ''x4'', username = None,
     createdAt = 0, updatedAt = 0, subscriptioStartDate = Some 1000, subscriptionEndDate = Some 5000,
     subscriptionStatus = ACTIVE, planType = PRO,
     messagesUsed = 12, documentsUsed = 2, messageLeft = - 1, documentLeft = - 1\<rparr>"

section \<open>Facts about the persistence operations\<close>

lemma findUnique_id_SomeD: "findUnique_id i rows = Some u \<Longrightarrow> id_u u = i \<and> u \<in> set rows"
  unfolding findUnique_id_def by (induction rows) (auto split: if_splits)

lemma findUnique_id_replace:
  "findUnique_id i rows = Some u \<Longrightarrow> id_u u' = i \<Longrightarrow>
   findUnique_id i (map (\<lambda>v. if id_u v = i then u' else v) rows) = Some u'"
  unfolding findUnique_id_def by (induction rows) (auto split: if_splits)

lemma id_u_apply_data [simp]: "id_u (apply_data d now u) = id_u u"
  by (simp add: apply_data_def)


lemma findUnique_id_distinct:
  "distinct (map id_u rows) \<Longrightarrow> u \<in> set rows \<Longrightarrow> findUnique_id (id_u u) rows = Some u"
  unfolding findUnique_id_def by (induction rows) (auto simp: image_iff)

lemma map_id_u_replace:
  "map id_u (map (\<lambda>v. if id_u v = i then apply_data d now w else v) rows) = map id_u rows"
  if "id_u w = i"
  using that by (induction rows) auto

lemma no_unique_columns_clash: "no_unique_columns d \<Longrightarrow> \<not> unique_clash d u rows"
  by (simp add: no_unique_columns_def unique_clash_def)

lemma update_by_id_distinct:
  assumes "distinct (map id_u rows)" "u \<in> set rows" "no_unique_columns d"
  shows "update_by_id (id_u u) d now rows =
         Inr (apply_data d now u, map (\<lambda>v. if v = u then apply_data d now v else v) rows)"
proof -
  have "map (\<lambda>v. if id_u v = id_u u then apply_data d now u else v) rows =
        map (\<lambda>v. if v = u then apply_data d now v else v) rows"
  proof (rule map_cong[OF refl])
    fix v assume "v \<in> set rows"
    with assms(1,2) have "id_u v = id_u u \<longleftrightarrow> v = u"
      by (metis distinct_map inj_on_def)
    then show "(if id_u v = id_u u then apply_data d now u else v) =
               (if v = u then apply_data d now v else v)" by simp
  qed
  then show ?thesis
    using assms by (simp add: update_by_id_def prisma_update_def findUnique_id_distinct
        no_unique_columns_clash Let_def)
qed

lemma update_each_eq:
  assumes "distinct (map id_u rows)" "set us \<subseteq> set rows" "distinct (map id_u us)"
    "\<And>u. no_unique_columns (f u)"
  shows "update_each f now us rows =
         (map (\<lambda>v. if v \<in> set us then apply_data (f v) now v else v) rows, None)"
  using assms(1-3)
proof (induction us arbitrary: rows)
  case Nil
  then show ?case by simp
next
  case (Cons u us)
  let ?A = "\<lambda>v. apply_data (f v) now v"
  let ?rows1 = "map (\<lambda>v. if v = u then ?A v else v) rows"
  from Cons.prems have u: "u \<in> set rows" and us: "set us \<subseteq> set rows"
    and nu: "id_u u \<notin> id_u ` set us" and dus: "distinct (map id_u us)" by auto
  have step: "update_by_id (id_u u) (f u) now rows = Inr (?A u, ?rows1)"
  proof -
    have "map (\<lambda>v. if v = u then apply_data (f u) now v else v) rows = ?rows1"
      by (rule map_cong) auto
    with update_by_id_distinct[OF Cons.prems(1) u assms(4), of u now] show ?thesis by simp
  qed
  have ids: "map id_u ?rows1 = map id_u rows"
    by (induction rows) auto
  have d1: "distinct (map id_u ?rows1)" unfolding ids by (rule Cons.prems(1))
  have s1: "set us \<subseteq> set ?rows1"
  proof
    fix w assume w: "w \<in> set us"
    with nu have "w \<noteq> u" by auto
    moreover from w us have "w \<in> set rows" by auto
    ultimately show "w \<in> set ?rows1" by (auto simp: image_iff)
  qed
  have "update_each f now (u # us) rows = update_each f now us ?rows1"
    by (simp add: step)
  also have "\<dots> = (map (\<lambda>v. if v \<in> set us then ?A v else v) ?rows1, None)"
    by (rule Cons.IH[OF d1 s1 dus])
  also have "map (\<lambda>v. if v \<in> set us then ?A v else v) ?rows1 =
             map (\<lambda>v. if v \<in> set (u # us) then ?A v else v) rows"
  proof -
    have "?A u \<notin> set us" using nu by (auto simp: image_iff)
    then show ?thesis by (auto simp: comp_def)
  qed
  finally show ?case .
qed

lemma update_each_filter:
  assumes "distinct (map id_u rows)" "\<And>u. no_unique_columns (f u)"
  shows "update_each f now (filter P rows) rows =
         (map (\<lambda>v. if P v then apply_data (f v) now v else v) rows, None)"
proof -
  have "update_each f now (filter P rows) rows =
        (map (\<lambda>v. if v \<in> set (filter P rows) then apply_data (f v) now v else v) rows, None)"
    using assms(1) by (intro update_each_eq assms(2)) (auto simp: distinct_map_filter)
  moreover have "map (\<lambda>v. if v \<in> set (filter P rows) then apply_data (f v) now v else v) rows =
        map (\<lambda>v. if P v then apply_data (f v) now v else v) rows"
    by (rule map_cong) auto
  ultimately show ?thesis by simp
qed


section \<open>The scheduled jobs as one pass over the table\<close>

lemma no_unique_job_data [simp]:
  "no_unique_columns (expired_data pl)" "no_unique_columns (reset_data pl p)"
  "no_unique_columns past_due_data"
  by (simp_all add: no_unique_columns_def expired_data_def reset_data_def past_due_data_def
      no_data_def Let_def)

lemma map_id_u_map:
  assumes "\<And>v. id_u (g v) = id_u v"
  shows "map id_u (map g rows) = map id_u rows"
  by (induction rows) (simp_all add: assms)

lemma monthly_job_eq:
  assumes "distinct (map id_u rows)"
  shows "monthly_job pl now rows =
     map (\<lambda>v. if subscriptionStatus v = ACTIVE
               then apply_data (reset_data pl (planType v)) now v else v)
         (map (\<lambda>v. if is_expired now v then apply_data (expired_data pl) now v else v) rows)"
proof -
  let ?rows1 = "map (\<lambda>v. if is_expired now v then apply_data (expired_data pl) now v else v) rows"
  have e: "update_each (\<lambda>u. expired_data pl) now (filter (is_expired now) rows) rows = (?rows1, None)"
    by (rule update_each_filter[OF assms]) simp
  have "map id_u ?rows1 = map id_u rows" by (rule map_id_u_map) simp
  then have d1: "distinct (map id_u ?rows1)" by (simp only: assms)
  have r: "update_each (\<lambda>u. reset_data pl (planType u)) now
             (filter (\<lambda>u. subscriptionStatus u = ACTIVE) ?rows1) ?rows1 =
           (map (\<lambda>v. if subscriptionStatus v = ACTIVE
               then apply_data (reset_data pl (planType v)) now v else v) ?rows1, None)"
    by (rule update_each_filter[OF d1]) simp
  show ?thesis
    unfolding monthly_job_def Let_def e prod.case option.case r fst_conv ..
qed

lemma daily_job_eq:
  assumes "distinct (map id_u rows)"
  shows "daily_job now rows =
     map (\<lambda>v. if expiring_soon now v then apply_data past_due_data now v else v) rows"
proof -
  have "update_each (\<lambda>u. past_due_data) now (filter (expiring_soon now) rows) rows =
     (map (\<lambda>v. if expiring_soon now v then apply_data past_due_data now v else v) rows, None)"
    by (rule update_each_filter[OF assms]) simp
  then show ?thesis by (simp add: daily_job_def)
qed

lemma findUnique_id_map:
  assumes "distinct (map id_u rows)" "u \<in> set rows" "\<And>v. id_u (g v) = id_u v"
  shows "findUnique_id (id_u u) (map g rows) = Some (g u)"
proof -
  have "map id_u (map g rows) = map id_u rows" by (rule map_id_u_map) (rule assms(3))
  then have "distinct (map id_u (map g rows))" by (simp only: assms(1))
  moreover have "g u \<in> set (map g rows)" using assms(2) by simp
  ultimately have "findUnique_id (id_u (g u)) (map g rows) = Some (g u)"
    by (rule findUnique_id_distinct)
  then show ?thesis by (simp add: assms(3))
qed


lemma example_rows:
  "distinct (map id_u [alice, bob])" "bob \<in> set [alice, bob]" "id_u bob = ''u2''"
  by (simp_all add: alice_def bob_def)



section \<open>Facts about the update endpoints\<close>

lemma plan_of_string_SomeD: "plan_of_string s = Some p \<Longrightarrow> s = string_of_plan p"
  by (auto simp: plan_of_string_def split: if_splits)

lemma plan_of_string_string_of_plan [simp]: "plan_of_string (string_of_plan p) = Some p"
  by (cases p) (simp_all add: plan_of_string_def)

lemma string_of_plan_nonempty [simp]: "string_of_plan p \<noteq> []"
  by (cases p) simp_all

lemma status_sendError: "status (sendError st msg) = st"
  by (simp add: sendError_def)

lemma status_sendSuccess: "status (sendSuccess p msg) = 200"
  by (simp add: sendSuccess_def)

lemma prisma_update_Inr:
  assumes "prisma_update found d now rows = Inr (u', rows')"
  shows "\<exists>u. found = Some u \<and> u' = apply_data d now u \<and>
             rows' = map (\<lambda>v. if id_u v = id_u u then u' else v) rows"
  using assms by (auto simp: prisma_update_def Let_def split: option.splits if_splits)

lemma update_raw_Inr:
  assumes "update_raw found b now rows = Inr (u', rows')"
  shows "\<exists>u d. found = Some u \<and> to_data b = Some d \<and> u' = apply_data d now u \<and>
             rows' = map (\<lambda>v. if id_u v = id_u u then u' else v) rows"
  using assms prisma_update_Inr[of found _ now rows u' rows']
  by (auto simp: update_raw_def split: option.splits)

lemma update_user_by_oauthId_200:
  assumes "update_user_by_oauthId pm oid body now rows = (resp, rows')" and "status resp = 200"
  shows "\<exists>u d. findUnique_oauthId oid rows = Some u \<and>
           to_data (build_update pm now u body) = Some d \<and>
           resp = sendSuccess (UserData (apply_data d now u)) ''User updated successfully'' \<and>
           rows' = map (\<lambda>v. if id_u v = id_u u then apply_data d now u else v) rows"
proof -
  from assms obtain u where u: "findUnique_oauthId oid rows = Some u"
    by (auto simp: update_user_by_oauthId_def status_sendError split: if_splits option.splits)
  let ?ud = "build_update pm now u body"
  from assms u obtain u' where r: "update_raw (Some u) ?ud now rows = Inr (u', rows')"
    and resp: "resp = sendSuccess (UserData u') ''User updated successfully''"
    by (auto simp: update_user_by_oauthId_def status_sendError Let_def
        split: if_splits sum.splits)
  from update_raw_Inr[OF r] resp u show ?thesis by auto
qed

lemma update_user_200:
  assumes "update_user i body now rows = (resp, rows')" and "status resp = 200"
  shows "\<exists>u d. findUnique_id i rows = Some u \<and>
           to_data (plan_reset u body) = Some d \<and>
           resp = sendSuccess (UserData (apply_data d now u)) ''User updated successfully'' \<and>
           rows' = map (\<lambda>v. if id_u v = id_u u then apply_data d now u else v) rows"
proof -
  from assms obtain u where u: "findUnique_id i rows = Some u"
    by (auto simp: update_user_def status_sendError split: if_splits option.splits)
  from assms u obtain u' where r: "update_raw (Some u) (plan_reset u body) now rows = Inr (u', rows')"
    and resp: "resp = sendSuccess (UserData u') ''User updated successfully''"
    by (auto simp: update_user_def status_sendError Let_def
        split: if_splits sum.splits)
  from update_raw_Inr[OF r] resp u show ?thesis by auto
qed

lemma to_data_fields:
  assumes "to_data b = Some d"
  shows "d_messageLeft d = b_messageLeft b" "d_documentLeft d = b_documentLeft b"
    "d_messagesUsed d = b_messagesUsed b" "d_documentsUsed d = b_documentsUsed b"
    "d_subscriptioStartDate d = b_subscriptioStartDate b"
    "d_subscriptionEndDate d = b_subscriptionEndDate b"
    "d_subscriptionStatus d = (case b_subscriptionStatus b of None \<Rightarrow> None | Some s \<Rightarrow> status_of_string s)"
    "d_planType d = (case b_planType b of None \<Rightarrow> None | Some s \<Rightarrow> plan_of_string s)"
    "d_email d = b_email b" "d_oauthId d = b_oauthId b" "d_username d = b_username b"
  using assms by (auto simp: to_data_def split: if_splits)

lemma row_in_replaced:
  assumes "u \<in> set rows"
  shows "u' \<in> set (map (\<lambda>v. if id_u v = id_u u then u' else v) rows)"
  using assms by (auto simp: image_iff)

lemma findUnique_oauthId_SomeD:
  "findUnique_oauthId oid rows = Some u \<Longrightarrow> oauthId u = oid \<and> u \<in> set rows"
  unfolding findUnique_oauthId_def by (induction rows) (auto split: if_splits)


section \<open>Consuming quota\<close>

lemma usage_no_clash: "\<not> unique_clash (usage_data u ty a) u rows"
  by (simp add: unique_clash_def usage_data_def no_data_def)

lemma update_by_id_usage:
  assumes "findUnique_id i rows = Some u"
  shows "update_by_id i (usage_data u ty a) now rows =
         Inr (apply_data (usage_data u ty a) now u,
              map (\<lambda>v. if id_u v = i then apply_data (usage_data u ty a) now u else v) rows)"
  using assms findUnique_id_SomeD[OF assms]
  by (simp add: update_by_id_def prisma_update_def usage_no_clash Let_def)

lemma consume_usage_message_eq:
  assumes "findUnique_id i rows = Some u" "i \<noteq> []" "type_b body = Some ''message''"
    "or_else (amount_b body) 1 = a" "1 \<le> a"
  shows "consume_usage i body now rows =
     (if messageLeft u \<noteq> - 1 \<and> messageLeft u < a
      then (sendError 403 ''Insufficient message quota remaining'', rows)
      else (sendSuccess (UserData (apply_data (usage_data u ''message'' a) now u))
              ''message usage updated successfully'',
            map (\<lambda>v. if id_u v = i then apply_data (usage_data u ''message'' a) now u else v) rows))"
  using assms by (simp add: consume_usage_def update_by_id_usage Let_def)

lemma consume_usage_document_eq:
  assumes "findUnique_id i rows = Some u" "i \<noteq> []" "type_b body = Some ''document''"
    "or_else (amount_b body) 1 = a" "1 \<le> a"
  shows "consume_usage i body now rows =
     (if documentLeft u \<noteq> - 1 \<and> documentLeft u < a
      then (sendError 403 ''Insufficient document quota remaining'', rows)
      else (sendSuccess (UserData (apply_data (usage_data u ''document'' a) now u))
              ''document usage updated successfully'',
            map (\<lambda>v. if id_u v = i then apply_data (usage_data u ''document'' a) now u else v) rows))"
  using assms by (simp add: consume_usage_def update_by_id_usage Let_def)

lemma consume_usage_message_finite:
  assumes f: "findUnique_id i rows = Some u" and i: "i \<noteq> []"
    and ty: "type_b body = Some ''message''"
    and a: "or_else (amount_b body) 1 = a" "1 \<le> a"
    and fin: "messageLeft u \<noteq> - 1"
    and run: "consume_usage i body now rows = (resp, rows')"
  shows "(status resp = 200 \<longleftrightarrow> a \<le> messageLeft u) \<and>
         (a \<le> messageLeft u \<longrightarrow>
            map_option messagesUsed (findUnique_id i rows') = Some (messagesUsed u + a) \<and>
            map_option messageLeft (findUnique_id i rows') = Some (messageLeft u - a)) \<and>
         (messageLeft u < a \<longrightarrow> status resp = 403 \<and> rows' = rows)"
proof -
  let ?u' = "apply_data (usage_data u ''message'' a) now u"
  have idu: "id_u u = i" using findUnique_id_SomeD[OF f] by simp
  have u': "id_u ?u' = i" "messagesUsed ?u' = messagesUsed u + a"
    "messageLeft ?u' = messageLeft u - a"
    using idu fin by (simp_all add: apply_data_def usage_data_def no_data_def)
  note eq = consume_usage_message_eq[OF f i ty a, of now]
  show ?thesis
  proof (cases "a \<le> messageLeft u")
    case True
    with eq run fin have r: "resp = sendSuccess (UserData ?u') ''message usage updated successfully''"
      and rows': "rows' = map (\<lambda>v. if id_u v = i then ?u' else v) rows" by simp_all
    have "findUnique_id i rows' = Some ?u'"
      unfolding rows' by (rule findUnique_id_replace[OF f u'(1)])
    with True r u' show ?thesis by (simp add: sendSuccess_def)
  next
    case False
    with eq run fin have "resp = sendError 403 ''Insufficient message quota remaining''" "rows' = rows"
      by simp_all
    with False show ?thesis by (simp add: sendError_def)
  qed
qed

lemma consume_usage_document_finite:
  assumes f: "findUnique_id i rows = Some u" and i: "i \<noteq> []"
    and ty: "type_b body = Some ''document''"
    and a: "or_else (amount_b body) 1 = a" "1 \<le> a"
    and fin: "documentLeft u \<noteq> - 1"
    and run: "consume_usage i body now rows = (resp, rows')"
  shows "(status resp = 200 \<longleftrightarrow> a \<le> documentLeft u) \<and>
         (a \<le> documentLeft u \<longrightarrow>
            map_option documentsUsed (findUnique_id i rows') = Some (documentsUsed u + a) \<and>
            map_option documentLeft (findUnique_id i rows') = Some (documentLeft u - a)) \<and>
         (documentLeft u < a \<longrightarrow> status resp = 403 \<and> rows' = rows)"
proof -
  let ?u' = "apply_data (usage_data u ''document'' a) now u"
  have idu: "id_u u = i" using findUnique_id_SomeD[OF f] by simp
  have u': "id_u ?u' = i" "documentsUsed ?u' = documentsUsed u + a"
    "documentLeft ?u' = documentLeft u - a"
    using idu fin by (simp_all add: apply_data_def usage_data_def no_data_def)
  note eq = consume_usage_document_eq[OF f i ty a, of now]
  show ?thesis
  proof (cases "a \<le> documentLeft u")
    case True
    with eq run fin have r: "resp = sendSuccess (UserData ?u') ''document usage updated successfully''"
      and rows': "rows' = map (\<lambda>v. if id_u v = i then ?u' else v) rows" by simp_all
    have "findUnique_id i rows' = Some ?u'"
      unfolding rows' by (rule findUnique_id_replace[OF f u'(1)])
    with True r u' show ?thesis by (simp add: sendSuccess_def)
  next
    case False
    with eq run fin have "resp = sendError 403 ''Insufficient document quota remaining''" "rows' = rows"
      by simp_all
    with False show ?thesis by (simp add: sendError_def)
  qed
qed

text \<open>
  Claim C1. For a stored user with a finite \<open>messageLeft = L\<close> (not the sentinel \<open>-1\<close>) and
  a requested amount \<open>a \<ge> 1\<close>, the usage endpoint with type \<open>message\<close> answers 200 exactly
  when \<open>a \<le> L\<close>; the stored row then has \<open>messagesUsed\<close> raised by \<open>a\<close> and \<open>messageLeft = L - a\<close>.
  When \<open>a > L\<close> it answers 403 and the table is unchanged. The same holds for type
  \<open>document\<close> over \<open>documentLeft\<close> and \<open>documentsUsed\<close>.
\<close>

theorem consume_usage_finite_quota:
  assumes "findUnique_id i rows = Some u" and "i \<noteq> []"
    and "or_else (amount_b body) 1 = a" and "1 \<le> a"
  shows "(type_b body = Some ''message'' \<and> messageLeft u \<noteq> - 1 \<longrightarrow>
           (case consume_usage i body now rows of (resp, rows') \<Rightarrow>
              (status resp = 200 \<longleftrightarrow> a \<le> messageLeft u) \<and>
              (a \<le> messageLeft u \<longrightarrow>
                 map_option messagesUsed (findUnique_id i rows') = Some (messagesUsed u + a) \<and>
                 map_option messageLeft (findUnique_id i rows') = Some (messageLeft u - a)) \<and>
              (messageLeft u < a \<longrightarrow> status resp = 403 \<and> rows' = rows))) \<and>
         (type_b body = Some ''document'' \<and> documentLeft u \<noteq> - 1 \<longrightarrow>
           (case consume_usage i body now rows of (resp, rows') \<Rightarrow>
              (status resp = 200 \<longleftrightarrow> a \<le> documentLeft u) \<and>
              (a \<le> documentLeft u \<longrightarrow>
                 map_option documentsUsed (findUnique_id i rows') = Some (documentsUsed u + a) \<and>
                 map_option documentLeft (findUnique_id i rows') = Some (documentLeft u - a)) \<and>
              (documentLeft u < a \<longrightarrow> status resp = 403 \<and> rows' = rows)))"
proof -
  obtain resp rows' where run: "consume_usage i body now rows = (resp, rows')"
    by (cases "consume_usage i body now rows")
  show ?thesis
    unfolding run prod.case
    using consume_usage_message_finite[OF assms(1,2) _ assms(3,4) _ run]
      consume_usage_document_finite[OF assms(1,2) _ assms(3,4) _ run]
    by blast
qed

theorem consume_usage_finite_quota_witness:
  "findUnique_id ''u1'' [alice] = Some alice \<and>
   (case consume_usage ''u1'' \<lparr>type_b = Some ''message'', amount_b = Some 5\<rparr> 1000 [alice] of
      (resp, rows') \<Rightarrow> status resp = 200 \<and>
        map_option messagesUsed (findUnique_id ''u1'' rows') = Some 5 \<and>
        map_option messageLeft (findUnique_id ''u1'' rows') = Some 15) \<and>
   (case consume_usage ''u1'' \<lparr>type_b = Some ''document'', amount_b = None\<rparr> 1000 [alice] of
      (resp, rows') \<Rightarrow> status resp = 403 \<and> rows' = [alice])"
proof -
  have f: "findUnique_id ''u1'' [alice] = Some alice"
    by (simp add: findUnique_id_def alice_def)
  have m: "messageLeft alice = 20" "messagesUsed alice = 0" "documentLeft alice = 0"
    by (simp_all add: alice_def)
  show ?thesis
    using f m
      consume_usage_finite_quota[OF f, of "\<lparr>type_b = Some ''message'', amount_b = Some 5\<rparr>" 5 1000]
      consume_usage_finite_quota[OF f, of "\<lparr>type_b = Some ''document'', amount_b = None\<rparr>" 1 1000]
    by (auto split: prod.splits)
qed

section \<open>Plan change\<close>

lemma build_update_plan_change:
  assumes "b_planType body = Some s" "plan_of_string s = Some P" "P \<noteq> planType u"
  shows "build_update pm now u body = plan_change pm now s (rest_of body)"
proof -
  have "s = string_of_plan P" using assms(2) by (rule plan_of_string_SomeD)
  then have "s \<noteq> []" by simp
  moreover have "s \<noteq> string_of_plan (planType u)" using assms(2,3) by auto
  ultimately show ?thesis using assms(1) by (simp add: build_update_def Let_def)
qed

lemma plan_change_fields:
  assumes "plan_of_string s = Some P"
  shows "b_planType (plan_change pm now s ud) = Some s"
    "b_messagesUsed (plan_change pm now s ud) = Some 0"
    "b_documentsUsed (plan_change pm now s ud) = Some 0"
    "b_messageLeft (plan_change pm now s ud) = Some (messages (PLAN_LIMITS_2 P))"
    "b_documentLeft (plan_change pm now s ud) = Some (documents (PLAN_LIMITS_2 P))"
    "b_subscriptionStatus (plan_change pm now s ud) = Some (if P = BASIC then ''CANCELED'' else ''ACTIVE'')"
    "b_subscriptioStartDate (plan_change pm now s ud) = Some (if P = BASIC then None else Some now)"
    "b_subscriptionEndDate (plan_change pm now s ud) = Some (if P = BASIC then None else Some (pm now))"
    "b_email (plan_change pm now s ud) = b_email ud"
    "b_oauthId (plan_change pm now s ud) = b_oauthId ud"
    "b_incrementMessage (plan_change pm now s ud) = b_incrementMessage ud"
    "b_incrementDocument (plan_change pm now s ud) = b_incrementDocument ud"
  using assms by (cases P; simp add: plan_change_def Let_def)+

lemma apply_data_set:
  "d_planType d = Some p \<Longrightarrow> planType (apply_data d now u) = p"
  "d_messagesUsed d = Some n \<Longrightarrow> messagesUsed (apply_data d now u) = n"
  "d_documentsUsed d = Some n \<Longrightarrow> documentsUsed (apply_data d now u) = n"
  "d_messageLeft d = Some n \<Longrightarrow> messageLeft (apply_data d now u) = n"
  "d_documentLeft d = Some n \<Longrightarrow> documentLeft (apply_data d now u) = n"
  "d_subscriptionStatus d = Some st \<Longrightarrow> subscriptionStatus (apply_data d now u) = st"
  "d_subscriptioStartDate d = Some sd \<Longrightarrow> subscriptioStartDate (apply_data d now u) = sd"
  "d_subscriptionEndDate d = Some ed \<Longrightarrow> subscriptionEndDate (apply_data d now u) = ed"
  by (simp_all add: apply_data_def)

lemma apply_data_keep:
  "d_subscriptionStatus d = None \<Longrightarrow> subscriptionStatus (apply_data d now u) = subscriptionStatus u"
  "d_subscriptioStartDate d = None \<Longrightarrow> subscriptioStartDate (apply_data d now u) = subscriptioStartDate u"
  "d_subscriptionEndDate d = None \<Longrightarrow> subscriptionEndDate (apply_data d now u) = subscriptionEndDate u"
  by (simp_all add: apply_data_def)

lemma plan_change_second_router:
  assumes "plan_of_string s = Some P" and "b_planType body = Some s"
    and "findUnique_oauthId oid rows = Some u" and "P \<noteq> planType u"
    and "update_user_by_oauthId pm oid body now rows = (resp, rows')" and "status resp = 200"
  shows "\<exists>u'. payload_of resp = UserData u' \<and> u' \<in> set rows' \<and> id_u u' = id_u u \<and>
     planType u' = P \<and> messagesUsed u' = 0 \<and> documentsUsed u' = 0 \<and>
     messageLeft u' = messages (PLAN_LIMITS_2 P) \<and>
     documentLeft u' = documents (PLAN_LIMITS_2 P) \<and>
     (P = CORE \<or> P = ADVANCED \<or> P = PRO \<longrightarrow>
        subscriptionStatus u' = ACTIVE \<and> subscriptioStartDate u' = Some now \<and>
        subscriptionEndDate u' = Some (pm now)) \<and>
     (P = BASIC \<longrightarrow>
        subscriptionStatus u' = CANCELED \<and> subscriptioStartDate u' = None \<and>
        subscriptionEndDate u' = None)"
proof -
  from update_user_by_oauthId_200[OF assms(5,6)] assms(3)
  obtain d where d: "to_data (build_update pm now u body) = Some d"
    and resp: "resp = sendSuccess (UserData (apply_data d now u)) ''User updated successfully''"
    and rows': "rows' = map (\<lambda>v. if id_u v = id_u u then apply_data d now u else v) rows"
    by auto
  let ?u' = "apply_data d now u"
  let ?ud = "plan_change pm now s (rest_of body)"
  have d': "to_data ?ud = Some d"
    using d build_update_plan_change[OF assms(2,1,4)] by simp
  note pf = plan_change_fields[OF assms(1), of pm now "rest_of body"]
  note tf = to_data_fields[OF d']
  have mem: "?u' \<in> set rows'"
    unfolding rows' using findUnique_oauthId_SomeD[OF assms(3)] by (intro row_in_replaced) simp
  have pay: "payload_of resp = UserData ?u'" by (simp add: resp sendSuccess_def)
  have f1: "planType ?u' = P" by (rule apply_data_set) (simp add: tf pf assms(1))
  have f2: "messagesUsed ?u' = 0" by (rule apply_data_set) (simp add: tf pf)
  have f3: "documentsUsed ?u' = 0" by (rule apply_data_set) (simp add: tf pf)
  have f4: "messageLeft ?u' = messages (PLAN_LIMITS_2 P)" by (rule apply_data_set) (simp add: tf pf)
  have f5: "documentLeft ?u' = documents (PLAN_LIMITS_2 P)" by (rule apply_data_set) (simp add: tf pf)
  have f6: "subscriptionStatus ?u' = (if P = BASIC then CANCELED else ACTIVE)"
    by (rule apply_data_set) (simp add: tf pf status_of_string_def)
  have f7: "subscriptioStartDate ?u' = (if P = BASIC then None else Some now)"
    by (rule apply_data_set) (simp add: tf pf)
  have f8: "subscriptionEndDate ?u' = (if P = BASIC then None else Some (pm now))"
    by (rule apply_data_set) (simp add: tf pf)
  show ?thesis
    by (intro exI[of _ ?u']) (simp add: pay mem f1 f2 f3 f4 f5 f6 f7 f8)
qed

lemma plan_reset_change:
  assumes "b_planType body = Some s" "plan_of_string s = Some P" "P \<noteq> planType u"
  shows "plan_reset u body = body\<lparr>b_messageLeft := Some (messages (PLAN_LIMITS P)),
                 b_documentLeft := Some (documents (PLAN_LIMITS P)),
                 b_messagesUsed := Some 0, b_documentsUsed := Some 0\<rparr>"
proof -
  have "s = string_of_plan P" using assms(2) by (rule plan_of_string_SomeD)
  then have "s \<noteq> []" by simp
  moreover have "s \<noteq> string_of_plan (planType u)" using assms(2,3) by auto
  ultimately show ?thesis using assms(1,2) by (simp add: plan_reset_def Let_def)
qed

lemma plan_change_first_router:
  assumes "plan_of_string s = Some P" and "b_planType body = Some s"
    and "findUnique_id i rows = Some u" and "P \<noteq> planType u"
    and "update_user i body now rows = (resp, rows')" and "status resp = 200"
  shows "\<exists>u'. payload_of resp = UserData u' \<and> u' \<in> set rows' \<and> id_u u' = id_u u \<and>
     planType u' = P \<and> messagesUsed u' = 0 \<and> documentsUsed u' = 0 \<and>
     messageLeft u' = messages (PLAN_LIMITS P) \<and>
     documentLeft u' = documents (PLAN_LIMITS P) \<and>
     (b_subscriptionStatus body = None \<longrightarrow> subscriptionStatus u' = subscriptionStatus u) \<and>
     (b_subscriptioStartDate body = None \<longrightarrow> subscriptioStartDate u' = subscriptioStartDate u) \<and>
     (b_subscriptionEndDate body = None \<longrightarrow> subscriptionEndDate u' = subscriptionEndDate u)"
proof -
  from update_user_200[OF assms(5,6)] assms(3)
  obtain d where d: "to_data (plan_reset u body) = Some d"
    and resp: "resp = sendSuccess (UserData (apply_data d now u)) ''User updated successfully''"
    and rows': "rows' = map (\<lambda>v. if id_u v = id_u u then apply_data d now u else v) rows"
    by auto
  let ?u' = "apply_data d now u"
  note pr = plan_reset_change[OF assms(2,1,4)]
  note tf = to_data_fields[OF d]
  have mem: "?u' \<in> set rows'"
    unfolding rows' using findUnique_id_SomeD[OF assms(3)] by (intro row_in_replaced) simp
  have pay: "payload_of resp = UserData ?u'" by (simp add: resp sendSuccess_def)
  have f1: "planType ?u' = P" by (rule apply_data_set) (simp add: tf pr assms(1,2))
  have f2: "messagesUsed ?u' = 0" by (rule apply_data_set) (simp add: tf pr)
  have f3: "documentsUsed ?u' = 0" by (rule apply_data_set) (simp add: tf pr)
  have f4: "messageLeft ?u' = messages (PLAN_LIMITS P)" by (rule apply_data_set) (simp add: tf pr)
  have f5: "documentLeft ?u' = documents (PLAN_LIMITS P)" by (rule apply_data_set) (simp add: tf pr)
  have f6: "b_subscriptionStatus body = None \<Longrightarrow> subscriptionStatus ?u' = subscriptionStatus u"
    by (rule apply_data_keep) (simp add: tf pr)
  have f7: "b_subscriptioStartDate body = None \<Longrightarrow> subscriptioStartDate ?u' = subscriptioStartDate u"
    by (rule apply_data_keep) (simp add: tf pr)
  have f8: "b_subscriptionEndDate body = None \<Longrightarrow> subscriptionEndDate ?u' = subscriptionEndDate u"
    by (rule apply_data_keep) (simp add: tf pr)
  show ?thesis
    by (intro exI[of _ ?u']) (simp add: pay mem f1 f2 f3 f4 f5 f6 f7 f8)
qed


lemma no_clash_without_unique_columns:
  "d_email d = None \<Longrightarrow> d_oauthId d = None \<Longrightarrow> \<not> unique_clash d u rows"
  by (simp add: unique_clash_def)

lemma update_raw_succeeds:
  assumes "to_data b = Some d" "b_email b = None" "b_oauthId b = None"
  shows "update_raw (Some u) b now rows =
     Inr (apply_data d now u, map (\<lambda>v. if id_u v = id_u u then apply_data d now u else v) rows)"
  using assms to_data_fields(9,10)[OF assms(1)]
  by (simp add: update_raw_def prisma_update_def no_clash_without_unique_columns Let_def)

lemma to_data_plan_change:
  assumes "plan_of_string s = Some P" "b_incrementMessage ud = None" "b_incrementDocument ud = None"
  shows "\<exists>d. to_data (plan_change pm now s ud) = Some d"
  using assms by (simp add: to_data_def plan_change_fields status_of_string_def)

lemma plain_plan_change_second_router:
  assumes "oid \<noteq> []" "findUnique_oauthId oid rows = Some u"
    "plan_of_string s = Some P" "P \<noteq> planType u"
  shows "status (fst (update_user_by_oauthId pm oid (empty_body\<lparr>b_planType := Some s\<rparr>) now rows)) = 200"
proof -
  let ?body = "empty_body\<lparr>b_planType := Some s\<rparr>"
  let ?ud = "plan_change pm now s (rest_of ?body)"
  have s: "s = string_of_plan P" using assms(3) by (rule plan_of_string_SomeD)
  have bu: "build_update pm now u ?body = ?ud"
    by (rule build_update_plan_change[OF _ assms(3,4)]) simp
  obtain d where d: "to_data ?ud = Some d"
    using to_data_plan_change[OF assms(3), of "rest_of ?body" pm now]
    by (auto simp: rest_of_def empty_body_def)
  have ne: "?ud \<noteq> empty_body"
  proof
    assume "?ud = empty_body"
    then have "b_planType ?ud = b_planType empty_body" by simp
    then show False by (simp add: plan_change_fields(1)[OF assms(3)] empty_body_def)
  qed
  have r: "update_raw (Some u) ?ud now rows =
     Inr (apply_data d now u, map (\<lambda>v. if id_u v = id_u u then apply_data d now u else v) rows)"
    by (rule update_raw_succeeds[OF d])
       (simp_all add: plan_change_fields[OF assms(3)] rest_of_def empty_body_def)
  have v: "b_email ?body = None" "b_subscriptionStatus ?body = None" "b_planType ?body = Some s"
    by (simp_all add: empty_body_def)
  show ?thesis
    using assms(1,2) ne
    by (simp add: update_user_by_oauthId_def v isValidPlanType_def assms(3) bu r Let_def
        status_sendSuccess)
qed

lemma plain_plan_change_first_router:
  assumes "i \<noteq> []" "findUnique_id i rows = Some u"
    "plan_of_string s = Some P" "P \<noteq> planType u"
  shows "status (fst (update_user i (empty_body\<lparr>b_planType := Some s\<rparr>) now rows)) = 200"
proof -
  let ?body = "empty_body\<lparr>b_planType := Some s\<rparr>"
  let ?ud = "plan_reset u ?body"
  have pr: "?ud = ?body\<lparr>b_messageLeft := Some (messages (PLAN_LIMITS P)),
                 b_documentLeft := Some (documents (PLAN_LIMITS P)),
                 b_messagesUsed := Some 0, b_documentsUsed := Some 0\<rparr>"
    by (rule plan_reset_change[OF _ assms(3,4)]) simp
  obtain d where d: "to_data ?ud = Some d"
    unfolding pr by (simp add: to_data_def empty_body_def assms(3))
  have e: "b_email ?ud = None" "b_oauthId ?ud = None"
    unfolding pr by (simp_all add: empty_body_def)
  have r: "update_raw (Some u) ?ud now rows =
     Inr (apply_data d now u, map (\<lambda>v. if id_u v = id_u u then apply_data d now u else v) rows)"
    by (rule update_raw_succeeds[OF d e])
  have v: "b_email ?body = None" "b_subscriptionStatus ?body = None" "b_planType ?body = Some s"
    by (simp_all add: empty_body_def)
  show ?thesis
    using assms(1,2)
    by (simp add: update_user_def v isValidPlanType_def assms(3) r status_sendSuccess)
qed

text \<open>
  Claim C2, as amended. For a user \<open>u\<close> and a plan \<open>P\<close> other than the current one, a PATCH
  update with \<open>planType = P\<close> that succeeds stores \<open>messagesUsed = 0\<close>, \<open>documentsUsed = 0\<close>
  and \<open>messageLeft\<close>, \<open>documentLeft\<close> at the ceilings of \<open>P\<close> in the router's table of plan
  limits; a body that holds nothing but \<open>planType\<close> does succeed. On the endpoint keyed by
  oauthId the update also stores ACTIVE, start date \<open>now\<close> and end date one month after
  \<open>now\<close> for a paid plan, and CANCELED with both dates null for BASIC. On the endpoint keyed
  by id (first router) the subscription status and dates stay as they were unless the body
  itself sets them.
\<close>

theorem plan_change_resets_usage:
  assumes "plan_of_string s = Some P" and "b_planType body = Some s"
  shows "(oid \<noteq> [] \<and> findUnique_oauthId oid rows = Some u \<and> P \<noteq> planType u \<longrightarrow>
           (case update_user_by_oauthId pm oid body now rows of (resp, rows') \<Rightarrow>
              (body = empty_body\<lparr>b_planType := Some s\<rparr> \<longrightarrow> status resp = 200) \<and>
              (status resp = 200 \<longrightarrow>
                (\<exists>u'. payload_of resp = UserData u' \<and> u' \<in> set rows' \<and> id_u u' = id_u u \<and>
                   planType u' = P \<and> messagesUsed u' = 0 \<and> documentsUsed u' = 0 \<and>
                   messageLeft u' = messages (PLAN_LIMITS_2 P) \<and>
                   documentLeft u' = documents (PLAN_LIMITS_2 P) \<and>
                   (P = CORE \<or> P = ADVANCED \<or> P = PRO \<longrightarrow>
                      subscriptionStatus u' = ACTIVE \<and> subscriptioStartDate u' = Some now \<and>
                      subscriptionEndDate u' = Some (pm now)) \<and>
                   (P = BASIC \<longrightarrow>
                      subscriptionStatus u' = CANCELED \<and> subscriptioStartDate u' = None \<and>
                      subscriptionEndDate u' = None))))) \<and>
         (i \<noteq> [] \<and> findUnique_id i rows_a = Some v \<and> P \<noteq> planType v \<longrightarrow>
           (case update_user i body now rows_a of (resp, rows') \<Rightarrow>
              (body = empty_body\<lparr>b_planType := Some s\<rparr> \<longrightarrow> status resp = 200) \<and>
              (status resp = 200 \<longrightarrow>
                (\<exists>v'. payload_of resp = UserData v' \<and> v' \<in> set rows' \<and> id_u v' = id_u v \<and>
                   planType v' = P \<and> messagesUsed v' = 0 \<and> documentsUsed v' = 0 \<and>
                   messageLeft v' = messages (PLAN_LIMITS P) \<and>
                   documentLeft v' = documents (PLAN_LIMITS P) \<and>
                   (b_subscriptionStatus body = None \<longrightarrow> subscriptionStatus v' = subscriptionStatus v) \<and>
                   (b_subscriptioStartDate body = None \<longrightarrow>
                      subscriptioStartDate v' = subscriptioStartDate v) \<and>
                   (b_subscriptionEndDate body = None \<longrightarrow>
                      subscriptionEndDate v' = subscriptionEndDate v)))))"
proof (intro conjI impI; elim conjE)
  assume h: "oid \<noteq> []" "findUnique_oauthId oid rows = Some u" "P \<noteq> planType u"
  obtain resp rows' where run: "update_user_by_oauthId pm oid body now rows = (resp, rows')"
    by (cases "update_user_by_oauthId pm oid body now rows")
  have "body = empty_body\<lparr>b_planType := Some s\<rparr> \<Longrightarrow> status resp = 200"
    using plain_plan_change_second_router[OF h(1,2) assms(1) h(3), of pm now] run by simp
  moreover note plan_change_second_router[OF assms h(2,3) run]
  ultimately show "case update_user_by_oauthId pm oid body now rows of (resp, rows') \<Rightarrow>
              (body = empty_body\<lparr>b_planType := Some s\<rparr> \<longrightarrow> status resp = 200) \<and>
              (status resp = 200 \<longrightarrow>
                (\<exists>u'. payload_of resp = UserData u' \<and> u' \<in> set rows' \<and> id_u u' = id_u u \<and>
                   planType u' = P \<and> messagesUsed u' = 0 \<and> documentsUsed u' = 0 \<and>
                   messageLeft u' = messages (PLAN_LIMITS_2 P) \<and>
                   documentLeft u' = documents (PLAN_LIMITS_2 P) \<and>
                   (P = CORE \<or> P = ADVANCED \<or> P = PRO \<longrightarrow>
                      subscriptionStatus u' = ACTIVE \<and> subscriptioStartDate u' = Some now \<and>
                      subscriptionEndDate u' = Some (pm now)) \<and>
                   (P = BASIC \<longrightarrow>
                      subscriptionStatus u' = CANCELED \<and> subscriptioStartDate u' = None \<and>
                      subscriptionEndDate u' = None)))"
    unfolding run prod.case by blast
next
  assume h: "i \<noteq> []" "findUnique_id i rows_a = Some v" "P \<noteq> planType v"
  obtain resp rows' where run: "update_user i body now rows_a = (resp, rows')"
    by (cases "update_user i body now rows_a")
  have "body = empty_body\<lparr>b_planType := Some s\<rparr> \<Longrightarrow> status resp = 200"
    using plain_plan_change_first_router[OF h(1,2) assms(1) h(3), of now] run by simp
  moreover note plan_change_first_router[OF assms h(2,3) run]
  ultimately show "case update_user i body now rows_a of (resp, rows') \<Rightarrow>
              (body = empty_body\<lparr>b_planType := Some s\<rparr> \<longrightarrow> status resp = 200) \<and>
              (status resp = 200 \<longrightarrow>
                (\<exists>v'. payload_of resp = UserData v' \<and> v' \<in> set rows' \<and> id_u v' = id_u v \<and>
                   planType v' = P \<and> messagesUsed v' = 0 \<and> documentsUsed v' = 0 \<and>
                   messageLeft v' = messages (PLAN_LIMITS P) \<and>
                   documentLeft v' = documents (PLAN_LIMITS P) \<and>
                   (b_subscriptionStatus body = None \<longrightarrow> subscriptionStatus v' = subscriptionStatus v) \<and>
                   (b_subscriptioStartDate body = None \<longrightarrow>
                      subscriptioStartDate v' = subscriptioStartDate v) \<and>
                   (b_subscriptionEndDate body = None \<longrightarrow>
                      subscriptionEndDate v' = subscriptionEndDate v)))"
    unfolding run prod.case by blast
qed


lemma example_lookups:
  "findUnique_oauthId ''x1'' [alice] = Some alice" "findUnique_id ''u1'' [alice] = Some alice"
  "planType alice = BASIC" "subscriptionStatus alice = UNPAID"
  "subscriptionEndDate alice = None" "subscriptioStartDate alice = None"
  "messageLeft alice = 20" "documentLeft alice = 0"
  by (simp_all add: findUnique_oauthId_def findUnique_id_def alice_def)

lemma example_plans:
  "plan_of_string ''CORE'' = Some CORE" "plan_of_string ''BASIC'' = Some BASIC"
  by (simp_all add: plan_of_string_def)

theorem plan_change_resets_usage_witness:
  "plan_of_string ''CORE'' = Some CORE \<and>
   findUnique_oauthId ''x1'' [alice] = Some alice \<and> CORE \<noteq> planType alice \<and>
   (case update_user_by_oauthId plus_month_january ''x1''
           (empty_body\<lparr>b_planType := Some ''CORE''\<rparr>) 9000 [alice] of
      (resp, rows') \<Rightarrow> status resp = 200 \<and>
        (\<exists>u'. payload_of resp = UserData u' \<and> u' \<in> set rows' \<and>
           messagesUsed u' = 0 \<and> documentsUsed u' = 0 \<and>
           messageLeft u' = 100 \<and> documentLeft u' = 10 \<and>
           subscriptionStatus u' = ACTIVE \<and> subscriptioStartDate u' = Some 9000 \<and>
           subscriptionEndDate u' = Some (plus_month_january 9000)))"
proof -
  have b: "b_planType (empty_body\<lparr>b_planType := Some ''CORE''\<rparr>) = Some ''CORE''" by simp
  have n: "''x1'' \<noteq> []" "CORE \<noteq> planType alice" by (simp_all add: example_lookups)
  from plan_change_resets_usage[OF example_plans(1) b,
      where oid = "''x1''" and rows = "[alice]" and u = alice and pm = plus_month_january
        and now = 9000]
  have "case update_user_by_oauthId plus_month_january ''x1''
           (empty_body\<lparr>b_planType := Some ''CORE''\<rparr>) 9000 [alice] of
      (resp, rows') \<Rightarrow>
        (status resp = 200) \<and>
        (status resp = 200 \<longrightarrow>
           (\<exists>u'. payload_of resp = UserData u' \<and> u' \<in> set rows' \<and> id_u u' = id_u alice \<and>
              planType u' = CORE \<and> messagesUsed u' = 0 \<and> documentsUsed u' = 0 \<and>
              messageLeft u' = messages (PLAN_LIMITS_2 CORE) \<and>
              documentLeft u' = documents (PLAN_LIMITS_2 CORE) \<and>
              (subscriptionStatus u' = ACTIVE \<and> subscriptioStartDate u' = Some 9000 \<and>
                 subscriptionEndDate u' = Some (plus_month_january 9000))))"
    using n example_lookups(1) by simp
  then show ?thesis
    using n example_lookups(1) example_plans(1) by (auto split: prod.splits)
qed

text \<open>
  The claim as first stated (ACTIVE and fresh dates after every change to a paid plan) fails
  on the endpoint keyed by id: \<open>alice\<close> moves from BASIC to CORE, her quota is reset to
  100 and 10, and her status is still UNPAID with no end date.
\<close>

theorem plan_change_first_router_counterexample:
  "plan_of_string ''CORE'' = Some CORE \<and> CORE \<noteq> planType alice \<and>
   findUnique_id ''u1'' [alice] = Some alice \<and>
   update_user ''u1'' (empty_body\<lparr>b_planType := Some ''CORE''\<rparr>) 9000 [alice] =
     (sendSuccess (UserData (alice\<lparr>updatedAt := 9000, planType := CORE,
                      messageLeft := 100, documentLeft := 10\<rparr>)) ''User updated successfully'',
      [alice\<lparr>updatedAt := 9000, planType := CORE, messageLeft := 100, documentLeft := 10\<rparr>]) \<and>
   subscriptionStatus (alice\<lparr>updatedAt := 9000, planType := CORE,
                      messageLeft := 100, documentLeft := 10\<rparr>) = UNPAID \<and>
   subscriptionEndDate (alice\<lparr>updatedAt := 9000, planType := CORE,
                      messageLeft := 100, documentLeft := 10\<rparr>) = None"
proof -
  let ?body = "empty_body\<lparr>b_planType := Some ''CORE''\<rparr>"
  have pr: "plan_reset alice ?body = ?body\<lparr>b_messageLeft := Some (messages (PLAN_LIMITS CORE)),
                 b_documentLeft := Some (documents (PLAN_LIMITS CORE)),
                 b_messagesUsed := Some 0, b_documentsUsed := Some 0\<rparr>"
    by (rule plan_reset_change[OF _ example_plans(1)]) (simp_all add: example_lookups)
  have td: "to_data (plan_reset alice ?body) =
      Some (no_data\<lparr>d_planType := Some CORE, d_messageLeft := Some 100, d_documentLeft := Some 10,
                     d_messagesUsed := Some 0, d_documentsUsed := Some 0\<rparr>)"
    unfolding pr by (simp add: to_data_def empty_body_def no_data_def example_plans)
  have e: "b_email (plan_reset alice ?body) = None" "b_oauthId (plan_reset alice ?body) = None"
    unfolding pr by (simp_all add: empty_body_def)
  have ap: "apply_data (no_data\<lparr>d_planType := Some CORE, d_messageLeft := Some 100,
               d_documentLeft := Some 10, d_messagesUsed := Some 0, d_documentsUsed := Some 0\<rparr>)
               9000 alice =
            alice\<lparr>updatedAt := 9000, planType := CORE, messageLeft := 100, documentLeft := 10\<rparr>"
    by (simp add: apply_data_def no_data_def alice_def)
  have v: "b_email ?body = None" "b_subscriptionStatus ?body = None" "b_planType ?body = Some ''CORE''"
    by (simp_all add: empty_body_def)
  have "update_user ''u1'' ?body 9000 [alice] =
     (sendSuccess (UserData (alice\<lparr>updatedAt := 9000, planType := CORE,
                      messageLeft := 100, documentLeft := 10\<rparr>)) ''User updated successfully'',
      [alice\<lparr>updatedAt := 9000, planType := CORE, messageLeft := 100, documentLeft := 10\<rparr>])"
    by (simp add: update_user_def v isValidPlanType_def example_plans example_lookups(2)
        update_raw_succeeds[OF td e] ap)
  moreover have "subscriptionStatus (alice\<lparr>updatedAt := 9000, planType := CORE,
                      messageLeft := 100, documentLeft := 10\<rparr>) = UNPAID"
    "subscriptionEndDate (alice\<lparr>updatedAt := 9000, planType := CORE,
                      messageLeft := 100, documentLeft := 10\<rparr>) = None"
    by (simp_all add: alice_def)
  ultimately show ?thesis
    using example_plans(1) example_lookups(2,3) by simp
qed


section \<open>The authentication middleware\<close>

text \<open>
  Claim C3. Whatever the token check answers (it throws, or it returns claims) and whatever
  the Authorization header holds (absent, malformed, valid), \<open>clerkAuthenticate\<close> calls
  \<open>next()\<close>: the handler behind it runs, and what the client receives is the handler's answer,
  the same for every outcome of the verification.
\<close>

theorem clerkAuthenticate_fail_open:
  "clerkAuthenticate verifyToken authorization = CallNext \<and>
   authenticated_route verifyToken handler reply authorization req = handler req \<and>
   authenticated_route verifyToken handler reply authorization req =
     authenticated_route verifyToken' handler reply authorization' req"
proof -
  have n: "clerkAuthenticate v a = CallNext" for v :: "string \<Rightarrow> 'a option" and a
    by (simp add: clerkAuthenticate_def Let_def split: option.splits)
  have n': "clerkAuthenticate v a = CallNext" for v :: "string \<Rightarrow> 'd option" and a
    by (simp add: clerkAuthenticate_def Let_def split: option.splits)
  show ?thesis by (simp add: authenticated_route_def n n')
qed

section \<open>Monthly reconciliation\<close>

text \<open>
  Claim C4. On a table with distinct ids, after one run of the monthly job every user whose
  \<open>subscriptionEndDate\<close> was strictly before \<open>now\<close> and whose status was not CANCELED has
  \<open>planType = BASIC\<close>, \<open>subscriptionStatus = UNPAID\<close>, both subscription dates null,
  \<open>messageLeft\<close> and \<open>documentLeft\<close> at the BASIC ceilings (20 and 0 in both tables of
  plan limits) and both used-counters zero. The downgrade is the work of the job: the user
  before the run is arbitrary, and a user who does not meet the condition keeps plan,
  status and both dates through the run.
\<close>

theorem monthly_job_downgrades_expired:
  assumes "distinct (map id_u rows)" and "u \<in> set rows"
    and "plan_limits = PLAN_LIMITS \<or> plan_limits = PLAN_LIMITS_2"
  shows "\<exists>u'. findUnique_id (id_u u) (monthly_job plan_limits now rows) = Some u' \<and>
     ((\<exists>e. subscriptionEndDate u = Some e \<and> e < now) \<and> subscriptionStatus u \<noteq> CANCELED \<longrightarrow>
        planType u' = BASIC \<and> subscriptionStatus u' = UNPAID \<and>
        subscriptionEndDate u' = None \<and> subscriptioStartDate u' = None \<and>
        messageLeft u' = messages (plan_limits BASIC) \<and> messageLeft u' = 20 \<and>
        documentLeft u' = documents (plan_limits BASIC) \<and> documentLeft u' = 0 \<and>
        messagesUsed u' = 0 \<and> documentsUsed u' = 0) \<and>
     (\<not> ((\<exists>e. subscriptionEndDate u = Some e \<and> e < now) \<and> subscriptionStatus u \<noteq> CANCELED) \<longrightarrow>
        planType u' = planType u \<and> subscriptionStatus u' = subscriptionStatus u \<and>
        subscriptionEndDate u' = subscriptionEndDate u \<and>
        subscriptioStartDate u' = subscriptioStartDate u)"
proof -
  let ?g = "\<lambda>v. if is_expired now v then apply_data (expired_data plan_limits) now v else v"
  let ?h = "\<lambda>v. if subscriptionStatus v = ACTIVE
               then apply_data (reset_data plan_limits (planType v)) now v else v"
  have "monthly_job plan_limits now rows = map (\<lambda>v. ?h (?g v)) rows"
    by (simp add: monthly_job_eq[OF assms(1)] comp_def)
  then have f: "findUnique_id (id_u u) (monthly_job plan_limits now rows) = Some (?h (?g u))"
    using findUnique_id_map[OF assms(1,2), of "\<lambda>v. ?h (?g v)"] by simp
  have ex: "is_expired now u \<longleftrightarrow>
     (\<exists>e. subscriptionEndDate u = Some e \<and> e < now) \<and> subscriptionStatus u \<noteq> CANCELED"
    by (auto simp: is_expired_def split: option.splits)
  have basic: "messages (plan_limits BASIC) = 20" "documents (plan_limits BASIC) = 0"
    using assms(3) by auto
  have down: "is_expired now u \<Longrightarrow>
        planType (?h (?g u)) = BASIC \<and> subscriptionStatus (?h (?g u)) = UNPAID \<and>
        subscriptionEndDate (?h (?g u)) = None \<and> subscriptioStartDate (?h (?g u)) = None \<and>
        messageLeft (?h (?g u)) = messages (plan_limits BASIC) \<and>
        documentLeft (?h (?g u)) = documents (plan_limits BASIC) \<and>
        messagesUsed (?h (?g u)) = 0 \<and> documentsUsed (?h (?g u)) = 0"
    by (simp add: apply_data_def expired_data_def no_data_def)
  have keep: "\<not> is_expired now u \<Longrightarrow>
        planType (?h (?g u)) = planType u \<and> subscriptionStatus (?h (?g u)) = subscriptionStatus u \<and>
        subscriptionEndDate (?h (?g u)) = subscriptionEndDate u \<and>
        subscriptioStartDate (?h (?g u)) = subscriptioStartDate u"
    by (simp add: apply_data_def reset_data_def no_data_def Let_def)
  show ?thesis
    unfolding f ex[symmetric] using down keep basic by auto
qed


theorem monthly_job_downgrades_expired_witness:
  "distinct (map id_u [alice, bob]) \<and> bob \<in> set [alice, bob] \<and>
   subscriptionEndDate bob = Some 5000 \<and> (5000::int) < 6000 \<and> subscriptionStatus bob \<noteq> CANCELED \<and>
   (\<exists>u'. findUnique_id ''u2'' (monthly_job PLAN_LIMITS 6000 [alice, bob]) = Some u' \<and>
      planType u' = BASIC \<and> subscriptionStatus u' = UNPAID \<and>
      subscriptionEndDate u' = None \<and> subscriptioStartDate u' = None \<and>
      messageLeft u' = 20 \<and> documentLeft u' = 0 \<and> messagesUsed u' = 0 \<and> documentsUsed u' = 0)"
proof -
  have b: "subscriptionEndDate bob = Some 5000" "subscriptionStatus bob \<noteq> CANCELED"
    by (simp_all add: bob_def)
  from monthly_job_downgrades_expired[OF example_rows(1,2), of PLAN_LIMITS 6000]
  show ?thesis using b example_rows by auto
qed


section \<open>Daily sweep\<close>

text \<open>
  Claim C5, as amended. On a table with distinct ids, one run of the daily job sets
  \<open>subscriptionStatus\<close> to PAST_DUE for exactly the users whose status is ACTIVE and whose
  \<open>subscriptionEndDate\<close> lies in \<open>[now, now + 3 days]\<close>, both ends included. For such a
  user every column other than \<open>subscriptionStatus\<close> and the \<open>@updatedAt\<close> column
  \<open>updatedAt\<close> (stamped with the time of the write) is unchanged; every other row is
  unchanged altogether.
\<close>

theorem daily_job_flags_expiring:
  assumes "distinct (map id_u rows)" and "u \<in> set rows"
  shows "findUnique_id (id_u u) (daily_job now rows) =
     Some (if subscriptionStatus u = ACTIVE \<and>
              (\<exists>e. subscriptionEndDate u = Some e \<and> now \<le> e \<and> e \<le> now + 3 * 24 * 60 * 60 * 1000)
           then u\<lparr>subscriptionStatus := PAST_DUE, updatedAt := now\<rparr>
           else u)"
proof -
  let ?g = "\<lambda>v. if expiring_soon now v then apply_data past_due_data now v else v"
  have f: "findUnique_id (id_u u) (daily_job now rows) = Some (?g u)"
    unfolding daily_job_eq[OF assms(1)]
    by (rule findUnique_id_map[OF assms]) simp
  have ex: "expiring_soon now u \<longleftrightarrow> subscriptionStatus u = ACTIVE \<and>
              (\<exists>e. subscriptionEndDate u = Some e \<and> now \<le> e \<and> e \<le> now + 3 * 24 * 60 * 60 * 1000)"
    by (auto simp: expiring_soon_def Let_def split: option.splits)
  have "apply_data past_due_data now u = u\<lparr>subscriptionStatus := PAST_DUE, updatedAt := now\<rparr>"
    by (simp add: apply_data_def past_due_data_def no_data_def)
  then show ?thesis unfolding f ex[symmetric] by simp
qed


theorem daily_job_flags_expiring_witness:
  "distinct (map id_u [alice, bob]) \<and> bob \<in> set [alice, bob] \<and>
   findUnique_id ''u2'' (daily_job 4000 [alice, bob]) =
     Some (bob\<lparr>subscriptionStatus := PAST_DUE, updatedAt := 4000\<rparr>) \<and>
   findUnique_id ''u2'' (daily_job 6000 [alice, bob]) = Some bob"
proof -
  have b: "subscriptionEndDate bob = Some 5000" "subscriptionStatus bob = ACTIVE"
    by (simp_all add: bob_def)
  show ?thesis
    using daily_job_flags_expiring[OF example_rows(1,2), of 4000]
      daily_job_flags_expiring[OF example_rows(1,2), of 6000] b example_rows
    by simp
qed


text \<open>
  The claim as first stated (every column but \<open>subscriptionStatus\<close> unchanged) fails on
  the column \<open>updatedAt\<close>: the row of \<open>bob\<close>, last updated at 0, is flagged by the run at
  4000 and then carries \<open>updatedAt = 4000\<close>.
\<close>

theorem daily_job_frame_counterexample:
  "subscriptionStatus bob = ACTIVE \<and> subscriptionEndDate bob = Some 5000 \<and>
   (4000::int) \<le> 5000 \<and> (5000::int) \<le> 4000 + 3 * 24 * 60 * 60 * 1000 \<and>
   findUnique_id ''u2'' [alice, bob] = Some bob \<and>
   findUnique_id ''u2'' (daily_job 4000 [alice, bob]) \<noteq> Some (bob\<lparr>subscriptionStatus := PAST_DUE\<rparr>) \<and>
   map_option updatedAt (findUnique_id ''u2'' (daily_job 4000 [alice, bob])) = Some 4000 \<and>
   updatedAt bob = 0"
proof -
  have e: "expiring_soon 4000 bob" "\<not> expiring_soon 4000 alice"
    by (simp_all add: expiring_soon_def alice_def bob_def)
  have "daily_job 4000 [alice, bob] = [alice, apply_data past_due_data 4000 bob]"
    by (simp add: daily_job_eq[OF example_rows(1)] e)
  then show ?thesis
    by (simp add: findUnique_id_def apply_data_def past_due_data_def no_data_def alice_def bob_def)
qed


section \<open>Webhook verification\<close>

text \<open>
  Claim C6, as amended. When a webhook secret is configured, a request that lacks one of
  the headers svix-id, svix-timestamp, svix-signature (absent or empty), or whose signature
  check fails, is answered with 400 and the table is unchanged: no row is created, updated
  or deleted, and the event is not dispatched. When no secret is configured the handler
  answers 500 before it looks at the headers, and the table is unchanged as well.
\<close>

theorem webhook_rejects_unverified:
  assumes "\<not> truthy (svix_id req) \<or> \<not> truthy (svix_timestamp req) \<or> \<not> truthy (svix_signature req) \<or>
     (\<forall>secret. webhook_secret env = Some secret \<longrightarrow>
        verify secret (body_of req)
          (the (svix_id req), the (svix_timestamp req), the (svix_signature req)) = None)"
  shows "handleUserWebhook verify env new_id req now rows =
     (case webhook_secret env of
        None \<Rightarrow> (Responded 500 ''Server configuration error'', rows)
      | Some secret \<Rightarrow>
          (Responded 400
             (if \<not> truthy (svix_id req) \<or> \<not> truthy (svix_timestamp req) \<or> \<not> truthy (svix_signature req)
              then ''Missing verification headers'' else ''Invalid webhook signature''), rows))"
  using assms by (auto simp: handleUserWebhook_def split: option.splits)

theorem webhook_rejects_unverified_witness:
  "handleUserWebhook (fixed_verify (Some carol_created)) secret_env ''id3'' unsigned_request 7000 [alice] =
     (Responded 400 ''Missing verification headers'', [alice]) \<and>
   handleUserWebhook (fixed_verify None) secret_env ''id3'' signed_request 7000 [alice] =
     (Responded 400 ''Invalid webhook signature'', [alice])"
proof -
  have s: "webhook_secret secret_env = Some ''whsec''"
    by (simp add: webhook_secret_def secret_env_def)
  have u: "\<not> truthy (svix_id unsigned_request)" by (simp add: unsigned_request_def)
  have g: "truthy (svix_id signed_request)" "truthy (svix_timestamp signed_request)"
    "truthy (svix_signature signed_request)" by (simp_all add: signed_request_def)
  show ?thesis
    using webhook_rejects_unverified[of unsigned_request secret_env "fixed_verify (Some carol_created)" "''id3''" 7000 "[alice]"]
      webhook_rejects_unverified[of signed_request secret_env "fixed_verify None" "''id3''" 7000 "[alice]"]
      s u g
    by (simp add: fixed_verify_def)
qed

text \<open>
  The claim as first stated (400 for every request without the headers) fails on a server
  without a webhook secret: the guard on the secret comes first and answers 500.
\<close>

theorem webhook_missing_headers_counterexample:
  "\<not> truthy (svix_id unsigned_request) \<and>
   handleUserWebhook (fixed_verify None) no_secret_env ''id3'' unsigned_request 7000 [alice] =
     (Responded 500 ''Server configuration error'', [alice])"
  by (simp add: handleUserWebhook_def webhook_secret_def no_secret_env_def unsigned_request_def)


section \<open>Webhook create path\<close>

lemma prisma_create_Inr:
  assumes "prisma_create new_id oid mail name now rows = Inr (u, rows')"
  shows "rows' = rows @ [u] \<and> oauthId u = oid \<and> oid \<notin> oauthId ` set rows"
  using assms by (auto simp: prisma_create_def Let_def split: if_splits)

lemma prisma_create_clash:
  assumes "\<exists>v \<in> set rows. oauthId v = oid"
  shows "prisma_create new_id oid mail name now rows = Inl P2002"
  using assms by (auto simp: prisma_create_def)

lemma handleUserCreated_cases:
  "handleUserCreated new_id userData now rows = Inr rows \<or>
   (\<exists>e. handleUserCreated new_id userData now rows = Inl e) \<or>
   (\<exists>u. handleUserCreated new_id userData now rows = Inr (rows @ [u]) \<and>
        oauthId u = cu_id userData \<and> cu_id userData \<notin> oauthId ` set rows)"
proof (cases "primary_email userData")
  case None
  then show ?thesis by (simp add: handleUserCreated_def)
next
  case (Some pe)
  show ?thesis
  proof (cases "prisma_create new_id (cu_id userData) (ea_email_address pe)
                  (Some (username_for userData pe)) now rows")
    case (Inl e)
    with Some show ?thesis by (simp add: handleUserCreated_def)
  next
    case (Inr p)
    obtain u rows' where p: "p = (u, rows')" by (cases p)
    from prisma_create_Inr[OF Inr[unfolded p]] Some Inr p show ?thesis
      by (simp add: handleUserCreated_def)
  qed
qed

lemma handleUserCreated_replay:
  assumes "\<exists>v \<in> set rows. oauthId v = cu_id userData"
  shows "handleUserCreated new_id userData now rows = Inr rows \<or>
         handleUserCreated new_id userData now rows = Inl P2002"
  using prisma_create_clash[OF assms]
  by (simp add: handleUserCreated_def split: option.splits)

lemma webhook_created_eq:
  assumes "webhook_secret env = Some secret"
    and "truthy (svix_id req)" "truthy (svix_timestamp req)" "truthy (svix_signature req)"
    and "verify secret (body_of req)
           (the (svix_id req), the (svix_timestamp req), the (svix_signature req)) = Some ev"
    and "ev_type ev = ''user.created''"
  shows "handleUserWebhook verify env new_id req now rows =
     (case handleUserCreated new_id (ev_data ev) now rows of
        Inl e \<Rightarrow> (Responded 500 ''Error processing webhook'', rows)
      | Inr rows' \<Rightarrow> (Responded 200 ''User webhook processed successfully'', rows'))"
  using assms by (simp add: handleUserWebhook_def dispatch_user_event_def)

text \<open>
  Claim C7. On a table in which the oauthIds are distinct, delivering the same verified
  \<open>user.created\<close> event twice leaves them distinct; and when the first delivery created
  the row, the table after the first and after the replayed delivery holds exactly one row
  with the event's oauthId (the replay changes nothing: the unique constraint refuses the
  second \<open>create\<close>).
\<close>

theorem webhook_created_replay_unique:
  assumes "webhook_secret env = Some secret"
    and "truthy (svix_id req)" and "truthy (svix_timestamp req)" and "truthy (svix_signature req)"
    and "verify secret (body_of req)
           (the (svix_id req), the (svix_timestamp req), the (svix_signature req)) = Some ev"
    and "ev_type ev = ''user.created''"
    and "distinct (map oauthId rows)"
  shows "(let rows1 = snd (handleUserWebhook verify env id1 req now1 rows);
              rows2 = snd (handleUserWebhook verify env id2 req now2 rows1)
          in distinct (map oauthId rows1) \<and> distinct (map oauthId rows2) \<and>
             (rows1 \<noteq> rows \<longrightarrow>
                length (filter (\<lambda>u. oauthId u = cu_id (ev_data ev)) rows1) = 1 \<and>
                length (filter (\<lambda>u. oauthId u = cu_id (ev_data ev)) rows2) = 1 \<and>
                rows2 = rows1))"
proof -
  let ?oid = "cu_id (ev_data ev)"
  let ?rows1 = "snd (handleUserWebhook verify env id1 req now1 rows)"
  let ?rows2 = "snd (handleUserWebhook verify env id2 req now2 ?rows1)"
  have eq: "handleUserWebhook verify env i req n r =
     (case handleUserCreated i (ev_data ev) n r of
        Inl e \<Rightarrow> (Responded 500 ''Error processing webhook'', r)
      | Inr rows' \<Rightarrow> (Responded 200 ''User webhook processed successfully'', rows'))" for i n r
    using assms(1-6) by (rule webhook_created_eq)
  have one: "distinct (map oauthId r) \<Longrightarrow> \<exists>v \<in> set r. oauthId v = ?oid \<Longrightarrow>
             length (filter (\<lambda>u. oauthId u = ?oid) r) = 1" for r
  proof (induction r)
    case Nil
    then show ?case by simp
  next
    case (Cons a r)
    show ?case
    proof (cases "oauthId a = ?oid")
      case True
      with Cons.prems(1) have "filter (\<lambda>u. oauthId u = ?oid) r = []"
        by (auto simp: filter_empty_conv image_iff)
      with True show ?thesis by simp
    next
      case False
      with Cons show ?thesis by auto
    qed
  qed
  have replay: "\<exists>v \<in> set r. oauthId v = ?oid \<Longrightarrow>
                snd (handleUserWebhook verify env i req n r) = r" for r i n
    using handleUserCreated_replay[of r "ev_data ev" i n]
    by (auto simp: eq)
  from handleUserCreated_cases[of id1 "ev_data ev" now1 rows]
  consider (same) "?rows1 = rows"
    | (new) u where "?rows1 = rows @ [u]" "oauthId u = ?oid" "?oid \<notin> oauthId ` set rows"
    by (auto simp: eq)
  then show ?thesis
  proof cases
    case same
    from handleUserCreated_cases[of id2 "ev_data ev" now2 rows]
    consider (same2) "snd (handleUserWebhook verify env id2 req now2 rows) = rows"
      | (new2) u where "snd (handleUserWebhook verify env id2 req now2 rows) = rows @ [u]"
          "oauthId u = ?oid" "?oid \<notin> oauthId ` set rows"
      by (auto simp: eq)
    then show ?thesis
    proof cases
      case same2
      with same assms(7) show ?thesis by (simp add: Let_def)
    next
      case new2
      with same assms(7) show ?thesis by (simp add: Let_def)
    qed
  next
    case new
    have d1: "distinct (map oauthId ?rows1)" using new assms(7) by simp
    have ex: "\<exists>v \<in> set ?rows1. oauthId v = ?oid" using new by simp
    have r2: "?rows2 = ?rows1" by (rule replay[OF ex])
    have "length (filter (\<lambda>u. oauthId u = ?oid) ?rows1) = 1" by (rule one[OF d1 ex])
    with d1 r2 show ?thesis by (simp add: Let_def)
  qed
qed

theorem webhook_created_replay_unique_witness:
  "distinct (map oauthId [alice]) \<and>
   (let rows1 = snd (handleUserWebhook (fixed_verify (Some carol_created)) secret_env ''id3'' signed_request 7000 [alice]);
        rows2 = snd (handleUserWebhook (fixed_verify (Some carol_created)) secret_env ''id4'' signed_request 8000 rows1)
    in rows1 \<noteq> [alice] \<and> length (filter (\<lambda>u. oauthId u = ''x3'') rows2) = 1 \<and> rows2 = rows1)"
proof -
  have s: "webhook_secret secret_env = Some ''whsec''"
    by (simp add: webhook_secret_def secret_env_def)
  have g: "truthy (svix_id signed_request)" "truthy (svix_timestamp signed_request)"
    "truthy (svix_signature signed_request)" by (simp_all add: signed_request_def)
  have v: "fixed_verify (Some carol_created) ''whsec'' (body_of signed_request)
             (the (svix_id signed_request), the (svix_timestamp signed_request),
              the (svix_signature signed_request)) = Some carol_created"
    by (simp add: fixed_verify_def)
  have t: "ev_type carol_created = ''user.created''" "cu_id (ev_data carol_created) = ''x3''"
    by (simp_all add: carol_created_def)
  have d: "distinct (map oauthId [alice])" by simp
  have c: "\<exists>r. handleUserCreated ''id3'' (ev_data carol_created) 7000 [alice] = Inr r \<and> r \<noteq> [alice]"
    by (simp add: handleUserCreated_def primary_email_def carol_created_def prisma_create_def
        alice_def username_for_def Let_def)
  have "handleUserWebhook (fixed_verify (Some carol_created)) secret_env ''id3'' signed_request 7000 [alice] =
     (case handleUserCreated ''id3'' (ev_data carol_created) 7000 [alice] of
        Inl e \<Rightarrow> (Responded 500 ''Error processing webhook'', [alice])
      | Inr rows' \<Rightarrow> (Responded 200 ''User webhook processed successfully'', rows'))"
    using s g v t(1) by (rule webhook_created_eq)
  with c have n: "snd (handleUserWebhook (fixed_verify (Some carol_created)) secret_env ''id3''
             signed_request 7000 [alice]) \<noteq> [alice]"
    by auto
  have "let rows1 = snd (handleUserWebhook (fixed_verify (Some carol_created)) secret_env ''id3'' signed_request 7000 [alice]);
              rows2 = snd (handleUserWebhook (fixed_verify (Some carol_created)) secret_env ''id4'' signed_request 8000 rows1)
          in distinct (map oauthId rows1) \<and> distinct (map oauthId rows2) \<and>
             (rows1 \<noteq> [alice] \<longrightarrow>
                length (filter (\<lambda>u. oauthId u = cu_id (ev_data carol_created)) rows1) = 1 \<and>
                length (filter (\<lambda>u. oauthId u = cu_id (ev_data carol_created)) rows2) = 1 \<and>
                rows2 = rows1)"
    using s g v t(1) d by (rule webhook_created_replay_unique)
  with n d show ?thesis
    by (simp add: Let_def t)
qed


section \<open>Plan change to the current plan\<close>

lemma same_plan_build_update:
  assumes "b_planType body = Some (string_of_plan (planType u))"
  shows "build_update pm now u body = rest_of body"
  using assms by (simp add: build_update_def Let_def)

lemma same_plan_plan_reset:
  assumes "b_planType body = Some (string_of_plan (planType u))"
  shows "plan_reset u body = body"
  using assms by (simp add: plan_reset_def)

lemma same_plan_second_router:
  assumes "b_planType body = Some (string_of_plan (planType u))"
    and "oid \<noteq> []" and "findUnique_oauthId oid rows = Some u" and "rest_of body = empty_body"
  shows "update_user_by_oauthId pm oid body now rows =
           (sendError 400 ''No valid updates provided'', rows)"
proof -
  have "b_email (rest_of body) = None" "b_subscriptionStatus (rest_of body) = None"
    unfolding assms(4) by (simp_all add: empty_body_def)
  then have v: "b_email body = None" "b_subscriptionStatus body = None"
    by (simp_all add: rest_of_def)
  show ?thesis
    using assms(2,3)
    by (simp add: update_user_by_oauthId_def v assms(1) isValidPlanType_def
        same_plan_build_update[OF assms(1)] assms(4))
qed

lemma same_plan_first_router:
  assumes "body = empty_body\<lparr>b_planType := Some (string_of_plan (planType u))\<rparr>"
    and "i \<noteq> []" and "findUnique_id i rows = Some u"
  shows "update_user i body now rows =
           (sendSuccess (UserData (u\<lparr>updatedAt := now\<rparr>)) ''User updated successfully'',
            map (\<lambda>v. if id_u v = i then u\<lparr>updatedAt := now\<rparr> else v) rows)"
proof -
  have p: "b_planType body = Some (string_of_plan (planType u))" by (simp add: assms(1))
  have v: "b_email body = None" "b_subscriptionStatus body = None" "b_oauthId body = None"
    by (simp_all add: assms(1) empty_body_def)
  have td: "to_data body = Some (no_data\<lparr>d_planType := Some (planType u)\<rparr>)"
    by (simp add: assms(1) to_data_def empty_body_def no_data_def)
  have ap: "apply_data (no_data\<lparr>d_planType := Some (planType u)\<rparr>) now u = u\<lparr>updatedAt := now\<rparr>"
    by (simp add: apply_data_def no_data_def)
  have idu: "id_u u = i" using findUnique_id_SomeD[OF assms(3)] by simp
  show ?thesis
    using assms(2,3)
    by (simp add: update_user_def v p isValidPlanType_def same_plan_plan_reset[OF p]
        update_raw_succeeds[OF td v(1,3)] ap idu)
qed

text \<open>
  Claim C8, as amended. A request whose \<open>planType\<close> equals the user's current plan causes
  no usage reset and no subscription transition: the update data are the other keys of the
  body, untouched. On the endpoint keyed by oauthId a body with no other column is refused
  with 400 (no valid updates) and the table is unchanged; on the endpoint keyed by id the
  request succeeds and changes nothing in the row but \<open>updatedAt\<close>.
\<close>

theorem same_plan_no_transition:
  assumes "b_planType body = Some (string_of_plan (planType u))"
  shows "build_update pm now u body = rest_of body \<and>
     plan_reset u body = body \<and>
     (oid \<noteq> [] \<and> findUnique_oauthId oid rows = Some u \<and> rest_of body = empty_body \<longrightarrow>
        update_user_by_oauthId pm oid body now rows =
          (sendError 400 ''No valid updates provided'', rows)) \<and>
     (i \<noteq> [] \<and> findUnique_id i rows_a = Some u \<and>
      body = empty_body\<lparr>b_planType := Some (string_of_plan (planType u))\<rparr> \<longrightarrow>
        update_user i body now rows_a =
          (sendSuccess (UserData (u\<lparr>updatedAt := now\<rparr>)) ''User updated successfully'',
           map (\<lambda>v. if id_u v = i then u\<lparr>updatedAt := now\<rparr> else v) rows_a))"
  using same_plan_build_update[OF assms] same_plan_plan_reset[OF assms]
    same_plan_second_router[OF assms] same_plan_first_router
  by blast

theorem same_plan_no_transition_witness:
  "b_planType (empty_body\<lparr>b_planType := Some ''BASIC''\<rparr>) = Some (string_of_plan (planType alice)) \<and>
   findUnique_oauthId ''x1'' [alice] = Some alice \<and> findUnique_id ''u1'' [alice] = Some alice \<and>
   update_user_by_oauthId plus_month_january ''x1'' (empty_body\<lparr>b_planType := Some ''BASIC''\<rparr>) 9000 [alice] =
     (sendError 400 ''No valid updates provided'', [alice]) \<and>
   update_user ''u1'' (empty_body\<lparr>b_planType := Some ''BASIC''\<rparr>) 9000 [alice] =
     (sendSuccess (UserData (alice\<lparr>updatedAt := 9000\<rparr>)) ''User updated successfully'',
      [alice\<lparr>updatedAt := 9000\<rparr>])"
proof -
  have p: "b_planType (empty_body\<lparr>b_planType := Some ''BASIC''\<rparr>) = Some (string_of_plan (planType alice))"
    by (simp add: example_lookups)
  have r: "rest_of (empty_body\<lparr>b_planType := Some ''BASIC''\<rparr>) = empty_body"
    by (simp add: rest_of_def empty_body_def)
  have s: "string_of_plan (planType alice) = ''BASIC''" by (simp add: example_lookups)
  have i: "id_u alice = ''u1''" by (simp add: alice_def)
  from same_plan_no_transition[OF p, where oid = "''x1''" and rows = "[alice]" and i = "''u1''"
      and rows_a = "[alice]" and pm = plus_month_january and now = 9000]
  show ?thesis
    using p r s i example_lookups(1,2) by simp
qed

text \<open>
  The claim as first stated (the request completes successfully) fails on the endpoint keyed
  by oauthId: \<open>alice\<close> is on BASIC, and the body \<open>{planType: BASIC}\<close> is answered with 400.
\<close>

theorem same_plan_rejected_counterexample:
  "findUnique_oauthId ''x1'' [alice] = Some alice \<and> string_of_plan (planType alice) = ''BASIC'' \<and>
   update_user_by_oauthId plus_month_january ''x1'' (empty_body\<lparr>b_planType := Some ''BASIC''\<rparr>) 9000 [alice] =
     (sendError 400 ''No valid updates provided'', [alice]) \<and>
   status (sendError 400 ''No valid updates provided'') \<noteq> 200"
proof -
  have p: "b_planType (empty_body\<lparr>b_planType := Some ''BASIC''\<rparr>) = Some (string_of_plan (planType alice))"
    by (simp add: example_lookups)
  have r: "rest_of (empty_body\<lparr>b_planType := Some ''BASIC''\<rparr>) = empty_body"
    by (simp add: rest_of_def empty_body_def)
  have "update_user_by_oauthId plus_month_january ''x1'' (empty_body\<lparr>b_planType := Some ''BASIC''\<rparr>) 9000 [alice] =
     (sendError 400 ''No valid updates provided'', [alice])"
    by (rule same_plan_second_router[OF p _ example_lookups(1) r]) simp
  then show ?thesis
    by (simp add: example_lookups status_sendError)
qed


section \<open>Usage updates through the update endpoint\<close>

lemma usage_update_messageLeft:
  "b_messageLeft (usage_update u body ud) =
     (if messageLeft u = - 1 then b_messageLeft ud
      else if b_incrementMessage body = Some True then Some (max 0 (messageLeft u - 1))
      else (case b_messagesUsed body of
              None \<Rightarrow> b_messageLeft ud
            | Some m \<Rightarrow> Some (max 0 (messageLeft u - (max 0 m - messagesUsed u)))))"
  by (simp add: usage_update_def Let_def split: option.splits)

lemma usage_update_documentLeft:
  "b_documentLeft (usage_update u body ud) =
     (if documentLeft u = - 1 then b_documentLeft ud
      else if b_incrementDocument body = Some True then Some (max 0 (documentLeft u - 1))
      else (case b_documentsUsed body of
              None \<Rightarrow> b_documentLeft ud
            | Some m \<Rightarrow> Some (max 0 (documentLeft u - (max 0 m - documentsUsed u)))))"
  by (simp add: usage_update_def Let_def split: option.splits)

lemma build_update_usage:
  assumes "\<not> truthy (b_planType body)"
    and "b_incrementMessage body = Some True \<or> b_messagesUsed body \<noteq> None \<or>
         b_incrementDocument body = Some True \<or> b_documentsUsed body \<noteq> None"
  shows "build_update pm now u body = usage_update u body (rest_of body)"
  using assms by (auto simp: build_update_def Let_def)

lemma rest_of_left [simp]:
  "b_messageLeft (rest_of body) = b_messageLeft body"
  "b_documentLeft (rest_of body) = b_documentLeft body"
  by (simp_all add: rest_of_def)

lemma apply_data_left:
  "messageLeft (apply_data d now u) = or_else (d_messageLeft d) (messageLeft u)"
  "documentLeft (apply_data d now u) = or_else (d_documentLeft d) (documentLeft u)"
  by (simp_all add: apply_data_def)

text \<open>
  Claim C9, as amended. On the endpoint keyed by oauthId, for a request without \<open>planType\<close>
  that succeeds: when it mutates message usage (by \<open>incrementMessage\<close> or by an absolute
  \<open>messagesUsed\<close>) and the stored \<open>messageLeft\<close> is not \<open>-1\<close>, the new \<open>messageLeft\<close> is the
  value floored by \<open>max 0\<close>, hence not negative. When the stored \<open>messageLeft\<close> is \<open>-1\<close> the
  usage block does not write the column: it stays \<open>-1\<close> when the body has no key
  \<open>messageLeft\<close>, and takes the body's value when it has one. The same for documents.
\<close>

theorem usage_update_floor:
  assumes "update_user_by_oauthId pm oid body now rows = (resp, rows')" and "status resp = 200"
    and "findUnique_oauthId oid rows = Some u"
    and "\<not> truthy (b_planType body)"
  shows "\<exists>u'. payload_of resp = UserData u' \<and> u' \<in> set rows' \<and> id_u u' = id_u u \<and>
     (b_incrementMessage body = Some True \<or> b_messagesUsed body \<noteq> None \<longrightarrow>
        (messageLeft u \<noteq> - 1 \<longrightarrow>
           0 \<le> messageLeft u' \<and>
           messageLeft u' =
             (if b_incrementMessage body = Some True then max 0 (messageLeft u - 1)
              else max 0 (messageLeft u - (max 0 (the (b_messagesUsed body)) - messagesUsed u)))) \<and>
        (messageLeft u = - 1 \<longrightarrow>
           messageLeft u' = (case b_messageLeft body of None \<Rightarrow> - 1 | Some n \<Rightarrow> n))) \<and>
     (b_incrementDocument body = Some True \<or> b_documentsUsed body \<noteq> None \<longrightarrow>
        (documentLeft u \<noteq> - 1 \<longrightarrow>
           0 \<le> documentLeft u' \<and>
           documentLeft u' =
             (if b_incrementDocument body = Some True then max 0 (documentLeft u - 1)
              else max 0 (documentLeft u - (max 0 (the (b_documentsUsed body)) - documentsUsed u)))) \<and>
        (documentLeft u = - 1 \<longrightarrow>
           documentLeft u' = (case b_documentLeft body of None \<Rightarrow> - 1 | Some n \<Rightarrow> n))) \<and>
     (messageLeft u = - 1 \<longrightarrow> b_messageLeft (usage_update u body ud) = b_messageLeft ud) \<and>
     (documentLeft u = - 1 \<longrightarrow> b_documentLeft (usage_update u body ud) = b_documentLeft ud)"
proof -
  from update_user_by_oauthId_200[OF assms(1,2)] assms(3)
  obtain d where d: "to_data (build_update pm now u body) = Some d"
    and resp: "resp = sendSuccess (UserData (apply_data d now u)) ''User updated successfully''"
    and rows': "rows' = map (\<lambda>v. if id_u v = id_u u then apply_data d now u else v) rows"
    by auto
  let ?u' = "apply_data d now u"
  have mem: "?u' \<in> set rows'"
    unfolding rows' using findUnique_oauthId_SomeD[OF assms(3)] by (intro row_in_replaced) simp
  have pay: "payload_of resp = UserData ?u'" by (simp add: resp sendSuccess_def)
  have msg: "messageLeft ?u' =
      or_else (b_messageLeft (usage_update u body (rest_of body))) (messageLeft u)"
    if "b_incrementMessage body = Some True \<or> b_messagesUsed body \<noteq> None"
    using that d build_update_usage[OF assms(4), of pm now u]
    by (auto simp: apply_data_left to_data_fields(1)[OF d])
  have doc: "documentLeft ?u' =
      or_else (b_documentLeft (usage_update u body (rest_of body))) (documentLeft u)"
    if "b_incrementDocument body = Some True \<or> b_documentsUsed body \<noteq> None"
    using that d build_update_usage[OF assms(4), of pm now u]
    by (auto simp: apply_data_left to_data_fields(2)[OF d])
  have m: "b_incrementMessage body = Some True \<or> b_messagesUsed body \<noteq> None \<longrightarrow>
        (messageLeft u \<noteq> - 1 \<longrightarrow>
           0 \<le> messageLeft ?u' \<and>
           messageLeft ?u' =
             (if b_incrementMessage body = Some True then max 0 (messageLeft u - 1)
              else max 0 (messageLeft u - (max 0 (the (b_messagesUsed body)) - messagesUsed u)))) \<and>
        (messageLeft u = - 1 \<longrightarrow>
           messageLeft ?u' = (case b_messageLeft body of None \<Rightarrow> - 1 | Some n \<Rightarrow> n))"
    using msg by (auto simp: usage_update_messageLeft split: option.splits)
  have dm: "b_incrementDocument body = Some True \<or> b_documentsUsed body \<noteq> None \<longrightarrow>
        (documentLeft u \<noteq> - 1 \<longrightarrow>
           0 \<le> documentLeft ?u' \<and>
           documentLeft ?u' =
             (if b_incrementDocument body = Some True then max 0 (documentLeft u - 1)
              else max 0 (documentLeft u - (max 0 (the (b_documentsUsed body)) - documentsUsed u)))) \<and>
        (documentLeft u = - 1 \<longrightarrow>
           documentLeft ?u' = (case b_documentLeft body of None \<Rightarrow> - 1 | Some n \<Rightarrow> n))"
    using doc by (auto simp: usage_update_documentLeft split: option.splits)
  have blk: "messageLeft u = - 1 \<longrightarrow> b_messageLeft (usage_update u body ud) = b_messageLeft ud"
    "documentLeft u = - 1 \<longrightarrow> b_documentLeft (usage_update u body ud) = b_documentLeft ud"
    by (simp_all add: usage_update_messageLeft usage_update_documentLeft)
  have "\<exists>u'. payload_of resp = UserData u' \<and> u' \<in> set rows' \<and> id_u u' = id_u u \<and>
     (b_incrementMessage body = Some True \<or> b_messagesUsed body \<noteq> None \<longrightarrow>
        (messageLeft u \<noteq> - 1 \<longrightarrow>
           0 \<le> messageLeft u' \<and>
           messageLeft u' =
             (if b_incrementMessage body = Some True then max 0 (messageLeft u - 1)
              else max 0 (messageLeft u - (max 0 (the (b_messagesUsed body)) - messagesUsed u)))) \<and>
        (messageLeft u = - 1 \<longrightarrow>
           messageLeft u' = (case b_messageLeft body of None \<Rightarrow> - 1 | Some n \<Rightarrow> n))) \<and>
     (b_incrementDocument body = Some True \<or> b_documentsUsed body \<noteq> None \<longrightarrow>
        (documentLeft u \<noteq> - 1 \<longrightarrow>
           0 \<le> documentLeft u' \<and>
           documentLeft u' =
             (if b_incrementDocument body = Some True then max 0 (documentLeft u - 1)
              else max 0 (documentLeft u - (max 0 (the (b_documentsUsed body)) - documentsUsed u)))) \<and>
        (documentLeft u = - 1 \<longrightarrow>
           documentLeft u' = (case b_documentLeft body of None \<Rightarrow> - 1 | Some n \<Rightarrow> n)))"
    using pay mem m dm by (intro exI[of _ ?u']) simp
  with blk show ?thesis by simp
qed

lemma increment_message_example:
  "update_user_by_oauthId plus_month_january ''x1'' (empty_body\<lparr>b_incrementMessage := Some True\<rparr>)
     9000 [alice] =
   (sendSuccess (UserData (alice\<lparr>updatedAt := 9000, messagesUsed := 1, messageLeft := 19\<rparr>))
      ''User updated successfully'',
    [alice\<lparr>updatedAt := 9000, messagesUsed := 1, messageLeft := 19\<rparr>])"
proof -
  let ?body = "empty_body\<lparr>b_incrementMessage := Some True\<rparr>"
  have v: "b_email ?body = None" "b_subscriptionStatus ?body = None" "b_planType ?body = None"
    by (simp_all add: empty_body_def)
  have bu: "build_update plus_month_january 9000 alice ?body =
            empty_body\<lparr>b_messagesUsed := Some 1, b_messageLeft := Some 19\<rparr>"
    by (simp add: build_update_def usage_update_def rest_of_def empty_body_def Let_def alice_def)
  have td: "to_data (empty_body\<lparr>b_messagesUsed := Some 1, b_messageLeft := Some 19\<rparr>) =
            Some (no_data\<lparr>d_messagesUsed := Some 1, d_messageLeft := Some 19\<rparr>)"
    by (simp add: to_data_def empty_body_def no_data_def)
  have e: "b_email (empty_body\<lparr>b_messagesUsed := Some 1, b_messageLeft := Some 19\<rparr>) = None"
    "b_oauthId (empty_body\<lparr>b_messagesUsed := Some 1, b_messageLeft := Some 19\<rparr>) = None"
    by (simp_all add: empty_body_def)
  have ne: "empty_body\<lparr>b_messagesUsed := Some 1, b_messageLeft := Some 19\<rparr> \<noteq> empty_body"
    by (simp add: empty_body_def)
  have ap: "apply_data (no_data\<lparr>d_messagesUsed := Some 1, d_messageLeft := Some 19\<rparr>) 9000 alice =
            alice\<lparr>updatedAt := 9000, messagesUsed := 1, messageLeft := 19\<rparr>"
    by (simp add: apply_data_def no_data_def alice_def)
  have i: "id_u alice = ''u1''" by (simp add: alice_def)
  show ?thesis
    by (simp add: update_user_by_oauthId_def v example_lookups(1) bu ne
        update_raw_succeeds[OF td e] ap i)
qed

lemma increment_message_sentinel_example:
  "update_user_by_oauthId plus_month_january ''x4'' (empty_body\<lparr>b_incrementMessage := Some True\<rparr>)
     9000 [dana] =
   (sendSuccess (UserData (dana\<lparr>updatedAt := 9000, messagesUsed := 13\<rparr>))
      ''User updated successfully'',
    [dana\<lparr>updatedAt := 9000, messagesUsed := 13\<rparr>])"
proof -
  let ?body = "empty_body\<lparr>b_incrementMessage := Some True\<rparr>"
  let ?ud = "empty_body\<lparr>b_messagesUsed := Some 13\<rparr>"
  have f: "findUnique_oauthId ''x4'' [dana] = Some dana"
    by (simp add: findUnique_oauthId_def dana_def)
  have v: "b_email ?body = None" "b_subscriptionStatus ?body = None" "b_planType ?body = None"
    by (simp_all add: empty_body_def)
  have bu: "build_update plus_month_january 9000 dana ?body = ?ud"
    by (simp add: build_update_def usage_update_def rest_of_def empty_body_def Let_def dana_def)
  have td: "to_data ?ud = Some (no_data\<lparr>d_messagesUsed := Some 13\<rparr>)"
    by (simp add: to_data_def empty_body_def no_data_def)
  have e: "b_email ?ud = None" "b_oauthId ?ud = None"
    by (simp_all add: empty_body_def)
  have ne: "?ud \<noteq> empty_body"
    by (simp add: empty_body_def)
  have ap: "apply_data (no_data\<lparr>d_messagesUsed := Some 13\<rparr>) 9000 dana =
            dana\<lparr>updatedAt := 9000, messagesUsed := 13\<rparr>"
    by (simp add: apply_data_def no_data_def dana_def)
  have i: "id_u dana = ''u4''" by (simp add: dana_def)
  show ?thesis
    by (simp add: update_user_by_oauthId_def v f bu ne update_raw_succeeds[OF td e] ap i)
qed

theorem usage_update_floor_witness:
  "findUnique_oauthId ''x1'' [alice] = Some alice \<and>
   \<not> truthy (b_planType (empty_body\<lparr>b_incrementMessage := Some True\<rparr>)) \<and>
   messageLeft alice \<noteq> - 1 \<and>
   (case update_user_by_oauthId plus_month_january ''x1''
           (empty_body\<lparr>b_incrementMessage := Some True\<rparr>) 9000 [alice] of
      (resp, rows') \<Rightarrow> status resp = 200 \<and>
        (\<exists>u'. payload_of resp = UserData u' \<and> u' \<in> set rows' \<and>
              0 \<le> messageLeft u' \<and> messageLeft u' = 19)) \<and>
   findUnique_oauthId ''x4'' [dana] = Some dana \<and> messageLeft dana = - 1 \<and>
   (case update_user_by_oauthId plus_month_january ''x4''
           (empty_body\<lparr>b_incrementMessage := Some True\<rparr>) 9000 [dana] of
      (resp, rows') \<Rightarrow> status resp = 200 \<and>
        (\<exists>u'. payload_of resp = UserData u' \<and> u' \<in> set rows' \<and> messageLeft u' = - 1))"
proof -
  let ?body = "empty_body\<lparr>b_incrementMessage := Some True\<rparr>"
  let ?a = "alice\<lparr>updatedAt := 9000, messagesUsed := 1, messageLeft := 19\<rparr>"
  let ?d = "dana\<lparr>updatedAt := 9000, messagesUsed := 13\<rparr>"
  have np: "\<not> truthy (b_planType ?body)" by (simp add: empty_body_def)
  have st: "status (sendSuccess (UserData ?a) ''User updated successfully'') = 200"
    "status (sendSuccess (UserData ?d) ''User updated successfully'') = 200"
    by (rule status_sendSuccess)+
  have im: "b_incrementMessage ?body = Some True" by simp
  have bl: "b_messageLeft ?body = None" by (simp add: empty_body_def)
  have fd: "findUnique_oauthId ''x4'' [dana] = Some dana"
    by (simp add: findUnique_oauthId_def dana_def)
  have ld: "messageLeft dana = - 1" by (simp add: dana_def)
  from usage_update_floor[OF increment_message_example st(1) example_lookups(1) np]
  obtain u' where u': "payload_of (sendSuccess (UserData ?a) ''User updated successfully'') = UserData u'"
      "u' \<in> set [?a]"
      "messageLeft alice \<noteq> - 1 \<longrightarrow> 0 \<le> messageLeft u' \<and> messageLeft u' = max 0 (messageLeft alice - 1)"
    using im by auto
  then have a19: "0 \<le> messageLeft u' \<and> messageLeft u' = 19"
    by (simp add: example_lookups)
  from usage_update_floor[OF increment_message_sentinel_example st(2) fd np]
  obtain w' where w': "payload_of (sendSuccess (UserData ?d) ''User updated successfully'') = UserData w'"
      "w' \<in> set [?d]"
      "messageLeft dana = - 1 \<longrightarrow>
         messageLeft w' = (case b_messageLeft ?body of None \<Rightarrow> - 1 | Some n \<Rightarrow> n)"
    using im by auto
  then have dm: "messageLeft w' = - 1" using ld bl by simp
  have A: "case update_user_by_oauthId plus_month_january ''x1'' ?body 9000 [alice] of
      (resp, rows') \<Rightarrow> status resp = 200 \<and>
        (\<exists>u'. payload_of resp = UserData u' \<and> u' \<in> set rows' \<and>
              0 \<le> messageLeft u' \<and> messageLeft u' = 19)"
    using u'(1,2) a19 by (auto simp: increment_message_example status_sendSuccess)
  have D: "case update_user_by_oauthId plus_month_january ''x4'' ?body 9000 [dana] of
      (resp, rows') \<Rightarrow> status resp = 200 \<and>
        (\<exists>u'. payload_of resp = UserData u' \<and> u' \<in> set rows' \<and> messageLeft u' = - 1)"
    using w'(1,2) dm by (auto simp: increment_message_sentinel_example status_sendSuccess)
  from A D show ?thesis
    using example_lookups(1,7) np fd ld by simp
qed

text \<open>
  The claim as first stated (a left-counter of \<open>-1\<close> is left unchanged by every usage
  mutation) fails for a body that also carries the column: \<open>dana\<close> has \<open>messageLeft = -1\<close>,
  and the body \<open>{incrementMessage: true, messageLeft: 7}\<close> stores \<open>messageLeft = 7\<close>.
\<close>

theorem usage_update_sentinel_counterexample:
  "findUnique_oauthId ''x4'' [dana] = Some dana \<and> messageLeft dana = - 1 \<and>
   update_user_by_oauthId plus_month_january ''x4''
     (empty_body\<lparr>b_incrementMessage := Some True, b_messageLeft := Some 7\<rparr>) 9000 [dana] =
   (sendSuccess (UserData (dana\<lparr>updatedAt := 9000, messagesUsed := 13, messageLeft := 7\<rparr>))
      ''User updated successfully'',
    [dana\<lparr>updatedAt := 9000, messagesUsed := 13, messageLeft := 7\<rparr>]) \<and>
   messageLeft (dana\<lparr>updatedAt := 9000, messagesUsed := 13, messageLeft := 7\<rparr>) \<noteq> - 1"
proof -
  let ?body = "empty_body\<lparr>b_incrementMessage := Some True, b_messageLeft := Some 7\<rparr>"
  let ?ud = "empty_body\<lparr>b_messagesUsed := Some 13, b_messageLeft := Some 7\<rparr>"
  have f: "findUnique_oauthId ''x4'' [dana] = Some dana"
    by (simp add: findUnique_oauthId_def dana_def)
  have l: "messageLeft dana = - 1" by (simp add: dana_def)
  have v: "b_email ?body = None" "b_subscriptionStatus ?body = None" "b_planType ?body = None"
    by (simp_all add: empty_body_def)
  have bu: "build_update plus_month_january 9000 dana ?body = ?ud"
    by (simp add: build_update_def usage_update_def rest_of_def empty_body_def Let_def dana_def)
  have td: "to_data ?ud = Some (no_data\<lparr>d_messagesUsed := Some 13, d_messageLeft := Some 7\<rparr>)"
    by (simp add: to_data_def empty_body_def no_data_def)
  have e: "b_email ?ud = None" "b_oauthId ?ud = None"
    by (simp_all add: empty_body_def)
  have ne: "?ud \<noteq> empty_body"
    by (simp add: empty_body_def)
  have ap: "apply_data (no_data\<lparr>d_messagesUsed := Some 13, d_messageLeft := Some 7\<rparr>) 9000 dana =
            dana\<lparr>updatedAt := 9000, messagesUsed := 13, messageLeft := 7\<rparr>"
    by (simp add: apply_data_def no_data_def dana_def)
  have i: "id_u dana = ''u4''" by (simp add: dana_def)
  have "update_user_by_oauthId plus_month_january ''x4'' ?body 9000 [dana] =
   (sendSuccess (UserData (dana\<lparr>updatedAt := 9000, messagesUsed := 13, messageLeft := 7\<rparr>))
      ''User updated successfully'',
    [dana\<lparr>updatedAt := 9000, messagesUsed := 13, messageLeft := 7\<rparr>])"
    by (simp add: update_user_by_oauthId_def v f bu ne update_raw_succeeds[OF td e] ap i)
  with f l show ?thesis by simp
qed

section \<open>Usage statistics\<close>

lemma daysRemaining_real:
  "daysRemaining e now = \<lceil>real_of_int (e - now) / 86400000\<rceil>"
proof -
  have "daysRemaining e now = - ((- (e - now)) div 86400000)"
    unfolding daysRemaining_def
    using ceiling_divide_eq_div[of "e - now" 86400000, where ?'a = rat] by simp
  also have "\<dots> = \<lceil>real_of_int (e - now) / 86400000\<rceil>"
    using ceiling_divide_eq_div[of "e - now" 86400000, where ?'a = real] by simp
  finally show ?thesis .
qed

lemma get_stats_found:
  assumes "findUnique_id i rows = Some u" "i \<noteq> []"
  shows "get_stats i now rows = sendSuccess (StatsData (user_stats u now)) ''Operation completed successfully''"
  using assms by (simp add: get_stats_def)

text \<open>
  Claim C10. For a stored user the stats endpoint reports \<open>remaining\<close> and \<open>total\<close> of a
  resource as \<open>unlimited\<close> exactly when the left-counter is \<open>-1\<close>, and otherwise
  \<open>remaining = left\<close> and \<open>total = used + left\<close>; \<open>daysRemaining\<close> is the ceiling of
  \<open>(subscriptionEndDate - now)\<close> divided by the milliseconds of one day when the end date is
  set, and \<open>null\<close> otherwise.
\<close>

theorem get_stats_reports:
  assumes "findUnique_id i rows = Some u" and "i \<noteq> []"
  shows "\<exists>s. get_stats i now rows = sendSuccess (StatsData s) ''Operation completed successfully'' \<and>
     (st_messages_remaining s = Unlimited \<longleftrightarrow> messageLeft u = - 1) \<and>
     (st_messages_total s = Unlimited \<longleftrightarrow> messageLeft u = - 1) \<and>
     (messageLeft u \<noteq> - 1 \<longrightarrow>
        st_messages_remaining s = Count (messageLeft u) \<and>
        st_messages_total s = Count (messagesUsed u + messageLeft u)) \<and>
     (st_documents_remaining s = Unlimited \<longleftrightarrow> documentLeft u = - 1) \<and>
     (st_documents_total s = Unlimited \<longleftrightarrow> documentLeft u = - 1) \<and>
     (documentLeft u \<noteq> - 1 \<longrightarrow>
        st_documents_remaining s = Count (documentLeft u) \<and>
        st_documents_total s = Count (documentsUsed u + documentLeft u)) \<and>
     st_daysRemaining s =
       (case subscriptionEndDate u of
          None \<Rightarrow> None
        | Some e \<Rightarrow> Some \<lceil>real_of_int (e - now) / (1000 * 60 * 60 * 24)\<rceil>)"
proof -
  have d: "st_daysRemaining (user_stats u now) =
       (case subscriptionEndDate u of
          None \<Rightarrow> None
        | Some e \<Rightarrow> Some \<lceil>real_of_int (e - now) / (1000 * 60 * 60 * 24)\<rceil>)"
    by (simp add: user_stats_def daysRemaining_real split: option.splits)
  have q: "(st_messages_remaining (user_stats u now) = Unlimited \<longleftrightarrow> messageLeft u = - 1)"
     "(st_messages_total (user_stats u now) = Unlimited \<longleftrightarrow> messageLeft u = - 1)"
     "(messageLeft u \<noteq> - 1 \<longrightarrow>
        st_messages_remaining (user_stats u now) = Count (messageLeft u) \<and>
        st_messages_total (user_stats u now) = Count (messagesUsed u + messageLeft u))"
     "(st_documents_remaining (user_stats u now) = Unlimited \<longleftrightarrow> documentLeft u = - 1)"
     "(st_documents_total (user_stats u now) = Unlimited \<longleftrightarrow> documentLeft u = - 1)"
     "(documentLeft u \<noteq> - 1 \<longrightarrow>
        st_documents_remaining (user_stats u now) = Count (documentLeft u) \<and>
        st_documents_total (user_stats u now) = Count (documentsUsed u + documentLeft u))"
    by (simp_all add: user_stats_def)
  show ?thesis
    using get_stats_found[OF assms, of now] d q by blast
qed

lemma bob_days: "\<lceil>real_of_int (5000 - 1000) / (1000 * 60 * 60 * 24)\<rceil> = 1"
  by (simp add: ceiling_eq_iff)

theorem get_stats_reports_witness:
  "findUnique_id ''u2'' [alice, bob] = Some bob \<and>
   (\<exists>s. get_stats ''u2'' 1000 [alice, bob] = sendSuccess (StatsData s) ''Operation completed successfully'' \<and>
      st_messages_remaining s = Count 60 \<and> st_messages_total s = Count 100 \<and>
      st_documents_remaining s = Count 7 \<and> st_documents_total s = Count 10 \<and>
      st_daysRemaining s = Some 1)"
proof -
  have f: "findUnique_id ''u2'' [alice, bob] = Some bob"
    by (simp add: findUnique_id_def alice_def bob_def)
  have b: "messageLeft bob = 60" "messagesUsed bob = 40" "documentLeft bob = 7"
    "documentsUsed bob = 3" "subscriptionEndDate bob = Some 5000"
    by (simp_all add: bob_def)
  from get_stats_reports[OF f, of 1000] obtain s where
    s: "get_stats ''u2'' 1000 [alice, bob] = sendSuccess (StatsData s) ''Operation completed successfully''"
      "messageLeft bob \<noteq> - 1 \<longrightarrow>
        st_messages_remaining s = Count (messageLeft bob) \<and>
        st_messages_total s = Count (messagesUsed bob + messageLeft bob)"
      "documentLeft bob \<noteq> - 1 \<longrightarrow>
        st_documents_remaining s = Count (documentLeft bob) \<and>
        st_documents_total s = Count (documentsUsed bob + documentLeft bob)"
      "st_daysRemaining s =
       (case subscriptionEndDate bob of
          None \<Rightarrow> None
        | Some e \<Rightarrow> Some \<lceil>real_of_int (e - 1000) / (1000 * 60 * 60 * 24)\<rceil>)"
    by auto
  from s(4) have "st_daysRemaining s = Some 1"
    unfolding b option.case using bob_days by simp
  with f s(1) s(2,3)[unfolded b] show ?thesis by auto
qed


end
